theory Spec2Isabelle
  imports Complex_Main
begin

section \<open>Arrays and Python arguments\<close>

text \<open>
  The geometry classes of \<^verbatim>\<open>tofu/geom/_core.py\<close> check and reformat their
  inputs with numpy. An array is modelled by its \<^verbatim>\<open>shape\<close> and its elements in
  row-major (C) order. \<^verbatim>\<open>ndim\<close> and \<^verbatim>\<open>size\<close> are derived from the shape as
  numpy does; a well-formed array holds exactly \<^verbatim>\<open>size\<close> elements.
\<close>

record 'a ndarray =
  shape :: "nat list"
  data :: "'a list"

definition ndim :: "'a ndarray \<Rightarrow> nat" where
  "ndim a = length (shape a)"

definition size_nd :: "'a ndarray \<Rightarrow> nat" where
  "size_nd a = prod_list (shape a)"

definition wf_nd :: "'a ndarray \<Rightarrow> bool" where
  "wf_nd a = (length (data a) = size_nd a)"

text \<open>
  \<^verbatim>\<open>arr.T\<close> of a 2D array of shape \<^verbatim>\<open>(r,c)\<close>: shape \<^verbatim>\<open>(c,r)\<close>, and the element
  at \<^verbatim>\<open>[j,i]\<close> is the element \<^verbatim>\<open>[i,j]\<close> of \<^verbatim>\<open>arr\<close>. The source only transposes
  arrays it has checked to be 2D; an array of another rank is left as it is.
\<close>

definition transpose_nd :: "'a ndarray \<Rightarrow> 'a ndarray" where
  "transpose_nd a =
     (case shape a of
        [r, c] \<Rightarrow> \<lparr>shape = [c, r],
                   data = map (\<lambda>k. data a ! ((k mod r) * c + k div r)) [0..<r * c]\<rparr>
      | _ \<Rightarrow> a)"

text \<open>\<^verbatim>\<open>arr.reshape(sh)\<close> where the source uses it: the element count is unchanged.\<close>

definition reshape :: "nat list \<Rightarrow> 'a ndarray \<Rightarrow> 'a ndarray" where
  "reshape sh a = \<lparr>shape = sh, data = data a\<rparr>"

text \<open>
  An argument as Python passes it: \<^verbatim>\<open>None\<close>, a number (no \<^verbatim>\<open>__iter__\<close>), or
  an array-like, given as the float array \<^verbatim>\<open>np.asarray(x).astype(float)\<close> makes of
  it (the list \<^verbatim>\<open>[]\<close> is the array of shape \<^verbatim>\<open>(0,)\<close>).
\<close>

datatype 'a pyarg = PyNone | PyScalar 'a | PyArray "'a ndarray"

datatype error = AssertionError string | NameError string | ValueError string | AxisError string

section \<open>Struct: checking and formatting the geometry inputs\<close>

text \<open>
  \<^verbatim>\<open>Struct._ddef['dgeom']\<close>: the defaults \<^verbatim>\<open>{'Type':'Tor', 'Lim':[], 'arrayorder':'C'}\<close>.
\<close>

definition ddef_Type :: string where
  "ddef_Type = ''Tor''"

definition ddef_Lim :: "'a ndarray" where
  "ddef_Lim = \<lparr>shape = [0], data = []\<rparr>"

definition ddef_arrayorder :: string where
  "ddef_arrayorder = ''C''"

text \<open>
  The polygon block of \<^verbatim>\<open>Struct._checkformat_inputs_dgeom\<close>:
  \<^verbatim>\<open>
  assert Poly is not None and hasattr(Poly,'__iter__')
  Poly = np.asarray(Poly).astype(float)
  assert Poly.ndim==2 and 2 in Poly.shape
  if Poly.shape[0]!=2:
      Poly = Poly.T
  \<close>
\<close>

definition checkformat_Poly :: "'a pyarg \<Rightarrow> error + 'a ndarray" where
  "checkformat_Poly Poly =
     (case Poly of
        PyNone \<Rightarrow> Inl (AssertionError [])
      | PyScalar _ \<Rightarrow> Inl (AssertionError [])
      | PyArray P \<Rightarrow>
          if \<not> (ndim P = 2 \<and> 2 \<in> set (shape P)) then Inl (AssertionError [])
          else if shape P ! 0 \<noteq> 2 then Inr (transpose_nd P)
          else Inr P)"

text \<open>
  The limits block of the same function, up to the type-dependent check:
  \<^verbatim>\<open>
  if Lim is None:
      Lim = Struct._ddef['dgeom']['Lim']
  assert hasattr(Lim,'__iter__')
  Lim = np.asarray(Lim).astype(float)
  assert Lim.ndim in [1,2] and (2 in Lim.shape or 0 in Lim.shape)
  if Lim.ndim==1:
      assert Lim.size in [0,2]
      if Lim.size==2:
          Lim = Lim.reshape((1,2))
  else:
      if Lim.shape[1]!=2:
          Lim = Lim.T
  \<close>
\<close>

definition checkformat_Lim :: "'a pyarg \<Rightarrow> error + 'a ndarray" where
  "checkformat_Lim Lim0 =
     (case (case Lim0 of PyNone \<Rightarrow> PyArray ddef_Lim | _ \<Rightarrow> Lim0) of
        PyNone \<Rightarrow> Inl (AssertionError [])
      | PyScalar _ \<Rightarrow> Inl (AssertionError [])
      | PyArray L \<Rightarrow>
          if \<not> (ndim L \<in> {1, 2} \<and> (2 \<in> set (shape L) \<or> 0 \<in> set (shape L)))
          then Inl (AssertionError [])
          else if ndim L = 1 then
            (if size_nd L \<notin> {0, 2} then Inl (AssertionError [])
             else if size_nd L = 2 then Inr (reshape [1, 2] L)
             else Inr L)
          else if shape L ! 1 \<noteq> 2 then Inr (transpose_nd L)
          else Inr L)"

text \<open>
  \<^verbatim>\<open>Struct._checkformat_inputs_dgeom(Poly, Lim, mobile, Type, Clock, arrayorder)\<close>.
  \<^verbatim>\<open>Clock\<close> and \<^verbatim>\<open>mobile\<close> are booleans here, so the two leading
  \<^verbatim>\<open>assert type(...) is bool\<close> hold by typing. The checks run in the order of the
  source and the first one that fails raises. The result is the tuple
  \<^verbatim>\<open>(Poly, Lim, Type, arrayorder)\<close>.
\<close>

definition Struct_checkformat_inputs_dgeom ::
  "'a pyarg \<Rightarrow> 'a pyarg \<Rightarrow> bool \<Rightarrow> string option \<Rightarrow> bool \<Rightarrow> string option
     \<Rightarrow> error + ('a ndarray \<times> 'a ndarray \<times> string \<times> string)" where
  "Struct_checkformat_inputs_dgeom Poly Lim0 mobile Type Clock arrayorder =
     (let arrayorder' = (case arrayorder of None \<Rightarrow> ddef_arrayorder | Some s \<Rightarrow> s) in
      if arrayorder' \<notin> {''C'', ''F''} then Inl (AssertionError [])
      else case checkformat_Poly Poly of
        Inl e \<Rightarrow> Inl e
      | Inr P \<Rightarrow>
          (let Type' = (case Type of None \<Rightarrow> ddef_Type | Some t \<Rightarrow> t) in
           if Type' \<notin> {''Tor'', ''Lin''} then Inl (AssertionError [])
           else case checkformat_Lim Lim0 of
             Inl e \<Rightarrow> Inl e
           | Inr L \<Rightarrow>
               if Type' = ''Lin'' \<and> \<not> 0 < size_nd L then Inl (AssertionError [])
               else Inr (P, L, Type', arrayorder')))"

section \<open>Ves and PlasmaDomain\<close>

text \<open>
  \<^verbatim>\<open>Ves._checkformat_inputs_dgeom\<close> runs the check of \<^verbatim>\<open>Struct\<close> and adds two
  assertions; \<^verbatim>\<open>PlasmaDomain\<close> is \<^verbatim>\<open>class PlasmaDomain(Ves): pass\<close> and inherits it.
  \<^verbatim>\<open>
  out = Struct._checkformat_inputs_dgeom(**kwdargs)
  Poly, Lim, Type, arrayorder = out
  msg = "Ves instances cannot be mobile !"
  assert mobile is False, msg
  msg = "There cannot be Lim if Type='Tor' !"
  if Type=='Tor':
      assert Lim.size==0, msg
  return out
  \<close>
\<close>

definition Tor_Lim_msg :: string where
  "Tor_Lim_msg = ''There cannot be Lim if Type='' @ [CHR 0x27] @ ''Tor'' @ [CHR 0x27] @ '' !''"

definition Ves_checkformat_inputs_dgeom ::
  "'a pyarg \<Rightarrow> 'a pyarg \<Rightarrow> bool \<Rightarrow> string option \<Rightarrow> bool \<Rightarrow> string option
     \<Rightarrow> error + ('a ndarray \<times> 'a ndarray \<times> string \<times> string)" where
  "Ves_checkformat_inputs_dgeom Poly Lim0 mobile Type Clock arrayorder =
     (case Struct_checkformat_inputs_dgeom Poly Lim0 mobile Type Clock arrayorder of
        Inl e \<Rightarrow> Inl e
      | Inr (P, L, Type', arrayorder') \<Rightarrow>
          if mobile then Inl (AssertionError ''Ves instances cannot be mobile !'')
          else if Type' = ''Tor'' \<and> size_nd L \<noteq> 0
          then Inl (AssertionError Tor_Lim_msg)
          else Inr (P, L, Type', arrayorder'))"

definition PlasmaDomain_checkformat_inputs_dgeom ::
  "'a pyarg \<Rightarrow> 'a pyarg \<Rightarrow> bool \<Rightarrow> string option \<Rightarrow> bool \<Rightarrow> string option
     \<Rightarrow> error + ('a ndarray \<times> 'a ndarray \<times> string \<times> string)" where
  "PlasmaDomain_checkformat_inputs_dgeom = Ves_checkformat_inputs_dgeom"

section \<open>Struct: building and storing the geometry\<close>

text \<open>
  Numpy indexing on a 2D array of shape \<^verbatim>\<open>(r,n)\<close>: the column \<^verbatim>\<open>a[:,j]\<close>, and the
  array \<^verbatim>\<open>a[:,js]\<close> made of the columns listed in \<open>js\<close>. The number of vertices of a
  polygon in the \<^verbatim>\<open>(2,N)\<close> layout is its number of columns.
\<close>

definition n_vertices :: "'a ndarray \<Rightarrow> nat" where
  "n_vertices P = shape P ! 1"

definition column :: "'a ndarray \<Rightarrow> nat \<Rightarrow> 'a list" where
  "column a j = map (\<lambda>i. data a ! (i * (shape a ! 1) + j)) [0..<shape a ! 0]"

definition select_cols :: "'a ndarray \<Rightarrow> nat list \<Rightarrow> 'a ndarray" where
  "select_cols a js =
     (let r = shape a ! 0; n = shape a ! 1; m = length js
      in \<lparr>shape = [r, m],
          data = map (\<lambda>k. data a ! ((k div m) * n + js ! (k mod m))) [0..<r * m]\<rparr>)"

text \<open>
  The arithmetic of the signed area is float arithmetic in the program; its operations
  and the test for a negative value are parameters of the model.
\<close>

record 'a area_ops =
  a_add :: "'a \<Rightarrow> 'a \<Rightarrow> 'a"
  a_sub :: "'a \<Rightarrow> 'a \<Rightarrow> 'a"
  a_mul :: "'a \<Rightarrow> 'a \<Rightarrow> 'a"
  a_negative :: "'a \<Rightarrow> bool"

text \<open>
  Modelled from the spec: \<^verbatim>\<open>_comp._Struct_set_Poly\<close>, the geometry builder that
  \<^verbatim>\<open>Struct._set_dgeom\<close> calls on the checked polygon, is not among the sources. This is
  its closing step (Polygon Model, Closing): "if first is not equal to last point, appended
  copy of first point for edge-walking purposes".
\<close>

definition close_Poly :: "'a ndarray \<Rightarrow> 'a ndarray" where
  "close_Poly P =
     (if column P 0 \<noteq> column P (n_vertices P - 1)
      then select_cols P ([0..<n_vertices P] @ [0])
      else P)"

text \<open>
  Modelled from the spec: the signed area of the builder (Polygon Model, Orientation:
  "compute signed area via the shoelace formula"), which is not among the sources. The
  value is twice the area of the closed contour: the sum over its edges of
  \<^verbatim>\<open>x[j]*y[j+1] - x[j+1]*y[j]\<close>. It is positive for a counter-clockwise contour.
\<close>

definition signed_area2 :: "'a area_ops \<Rightarrow> 'a ndarray \<Rightarrow> 'a" where
  "signed_area2 ops Pc =
     (let m = n_vertices Pc;
          x = (\<lambda>j. data Pc ! j);
          y = (\<lambda>j. data Pc ! (m + j));
          edge = (\<lambda>j. a_sub ops (a_mul ops (x j) (y (Suc j))) (a_mul ops (x (Suc j)) (y j)))
      in foldl (a_add ops) (edge 0) (map edge [1..<m - 1]))"

text \<open>
  Modelled from the spec: the orientation the builder computes, which is not among the
  sources: a closed contour is clockwise when its signed area is negative.
\<close>

definition is_clockwise :: "'a area_ops \<Rightarrow> 'a ndarray \<Rightarrow> bool" where
  "is_clockwise ops Pc = a_negative ops (signed_area2 ops Pc)"

text \<open>
  Modelled from the spec: the orientation step of the builder, which is not among the
  sources (Polygon Model, Orientation): "if requested orientation (clockwise flag)
  disagrees with computed sign, reverse point order". The points of the closed contour
  are reversed, so that it still starts and ends at the same point.
\<close>

definition orient_Poly :: "'a area_ops \<Rightarrow> bool \<Rightarrow> 'a ndarray \<Rightarrow> 'a ndarray" where
  "orient_Poly ops Clock Pc =
     (if is_clockwise ops Pc \<noteq> Clock
      then select_cols Pc (rev [0..<n_vertices Pc])
      else Pc)"

text \<open>
  Modelled from the spec: the polygon the builder stores, which is not among the sources
  (Polygon Model, Closing): "the stored open polygon never duplicates" the first point.
  It is the closed contour without its last column.
\<close>

definition open_Poly :: "'a ndarray \<Rightarrow> 'a ndarray" where
  "open_Poly Pc = select_cols Pc [0..<n_vertices Pc - 1]"

text \<open>
  Modelled from the spec: \<^verbatim>\<open>_comp._Struct_set_Poly(Poly, ..., Clock=Clock)\<close>, which is
  not among the sources, as far as the polygon goes. It "rejects degenerate input (ndim
  different from 2, fewer than 3 vertices, or a dimension not matching 2) at construction
  time" (Polygon Model, Failure), the vertices being those of the input as it is given;
  otherwise it closes the contour, orients it as requested and stores the open polygon.
  The other derived entries (bounding box, centroids, normals, surface, the limits and
  their number) are not modelled.
\<close>

definition Struct_set_Poly :: "'a area_ops \<Rightarrow> 'a ndarray \<Rightarrow> bool \<Rightarrow> error + 'a ndarray" where
  "Struct_set_Poly ops P Clock =
     (if ndim P \<noteq> 2 \<or> 2 \<notin> set (shape P) \<or> n_vertices P < 3
      then Inl (AssertionError [])
      else Inr (open_Poly (orient_Poly ops Clock (close_Poly P))))"

text \<open>
  The entries of \<^verbatim>\<open>self._dgeom\<close> that are modelled: the stored polygon and the
  clockwise flag, which the builder sets, and \<^verbatim>\<open>arrayorder\<close> and \<^verbatim>\<open>mobile\<close>, which
  \<^verbatim>\<open>_set_dgeom\<close> adds.
\<close>

record 'a struct_dgeom =
  sd_Poly :: "'a ndarray"
  sd_Clock :: bool
  sd_arrayorder :: string
  sd_mobile :: bool

text \<open>
  \<^verbatim>\<open>Struct._set_dgeom\<close>, the construction step for the geometry: the check above
  with \<^verbatim>\<open>Type=self.Id.Type\<close> and no \<^verbatim>\<open>arrayorder\<close>, then the geometry builder,
  whose result is stored.
  \<^verbatim>\<open>
  out = self._checkformat_inputs_dgeom(Poly=Poly, Lim=Lim, mobile=mobile,
                                       Type=self.Id.Type, Clock=Clock)
  Poly, Lim, Type, arrayorder = out
  dgeom = _comp._Struct_set_Poly(Poly, Lim=Lim, arrayorder=arrayorder,
                                 Type=self.Id.Type, Clock=Clock)
  dgeom['arrayorder'] = arrayorder
  dgeom['mobile'] = mobile
  self._dgeom = dgeom
  \<close>
  The result is the stored \<^verbatim>\<open>self._dgeom\<close>; the sinogram step that follows is not
  modelled.
\<close>

definition Struct_set_dgeom ::
  "'a area_ops \<Rightarrow> 'a pyarg \<Rightarrow> 'a pyarg \<Rightarrow> bool \<Rightarrow> string \<Rightarrow> bool
     \<Rightarrow> error + 'a struct_dgeom" where
  "Struct_set_dgeom ops Poly Lim0 mobile IdType Clock =
     (case Struct_checkformat_inputs_dgeom Poly Lim0 mobile (Some IdType) Clock None of
        Inl e \<Rightarrow> Inl e
      | Inr (P, L, Type', arrayorder') \<Rightarrow>
          (case Struct_set_Poly ops P Clock of
             Inl e \<Rightarrow> Inl e
           | Inr P_stored \<Rightarrow>
               Inr \<lparr>sd_Poly = P_stored, sd_Clock = Clock, sd_arrayorder = arrayorder',
                    sd_mobile = mobile\<rparr>))"

section \<open>Rays: checking and formatting origins and directions\<close>

text \<open>
  The nested helper \<^verbatim>\<open>_checkformat_Du(arr, name)\<close> of
  \<^verbatim>\<open>Rays._checkformat_inputs_dgeom\<close>:
  \<^verbatim>\<open>
  arr = np.asarray(arr,dtype=float)
  assert arr.ndim in [1,2], msg
  if arr.ndim==1:
      assert arr.size==3, msg
      arr = arr.reshape((3,1))
  else:
      assert 3 in arr.shape, msg
      if arr.shape[0]!=3:
          arr = arr.T
  \<close>
\<close>

definition Du_msg :: "string \<Rightarrow> string" where
  "Du_msg name = ''Arg '' @ name @ '' must be an iterable convertible into either:''
     @ [CHR 0x0A] @ ''    - a 1D np.ndarray of size=3''
     @ [CHR 0x0A] @ ''    - a 2D np.ndarray of shape (3,N)''"

definition checkformat_Du :: "'a ndarray \<Rightarrow> string \<Rightarrow> error + 'a ndarray" where
  "checkformat_Du arr name =
     (if ndim arr \<notin> {1, 2} then Inl (AssertionError (Du_msg name))
      else if ndim arr = 1 then
        (if size_nd arr \<noteq> 3 then Inl (AssertionError (Du_msg name))
         else Inr (reshape [3, 1] arr))
      else if 3 \<notin> set (shape arr) then Inl (AssertionError (Du_msg name))
      else if shape arr ! 0 \<noteq> 3 then Inr (transpose_nd arr)
      else Inr arr)"

text \<open>
  The float operations of \<^verbatim>\<open>u = u/np.sqrt(np.sum(u**2,axis=0))[np.newaxis,:]\<close>
  are parameters of the model: nothing below depends on how they round. The sum along
  axis 0 adds the rows in order; the quotient divides every element by the value of its
  column.
\<close>

record 'a float_ops =
  f_add :: "'a \<Rightarrow> 'a \<Rightarrow> 'a"
  f_mul :: "'a \<Rightarrow> 'a \<Rightarrow> 'a"
  f_div :: "'a \<Rightarrow> 'a \<Rightarrow> 'a"
  f_sqrt :: "'a \<Rightarrow> 'a"

definition col_norm :: "'a float_ops \<Rightarrow> 'a ndarray \<Rightarrow> nat \<Rightarrow> 'a" where
  "col_norm ops a j =
     (let r = shape a ! 0; n = shape a ! 1;
          sq = (\<lambda>i. f_mul ops (data a ! (i * n + j)) (data a ! (i * n + j)))
      in f_sqrt ops (foldl (f_add ops) (sq 0) (map sq [1..<r])))"

definition normalize_cols :: "'a float_ops \<Rightarrow> 'a ndarray \<Rightarrow> 'a ndarray" where
  "normalize_cols ops a =
     (let r = shape a ! 0; n = shape a ! 1
      in \<lparr>shape = shape a,
          data = map (\<lambda>k. f_div ops (data a ! k) (col_norm ops a (k mod n))) [0..<r * n]\<rparr>)"

text \<open>
  The argument \<^verbatim>\<open>dgeom\<close>: \<^verbatim>\<open>None\<close>, a dict from keys to array-likes, or a tuple
  of array-likes. The result is the dict the function returns, with \<^verbatim>\<open>u\<close> or
  \<^verbatim>\<open>pinhole\<close> absent as in the source.
\<close>

datatype 'a dgeom_arg =
  DgeomNone | DgeomDict "string \<rightharpoonup> 'a ndarray" | DgeomTuple "'a ndarray list"

record 'a rays_dgeom =
  dg_D :: "'a ndarray"
  dg_u :: "'a ndarray option"
  dg_pinhole :: "'a list option"
  dg_nRays :: nat

definition dgeom_msg :: string where
  "dgeom_msg = ''Arg dgeom must be a dict or a tuple of len=2''"

definition nRays_msg :: string where
  "nRays_msg = ''The number of rays is ambiguous from D and u shapes !''"

text \<open>
  The branch for a pinhole (\<^verbatim>\<open>if C1:\<close>):
  \<^verbatim>\<open>
  pinhole = _checkformat_Du(dgeom['pinhole'], 'pinhole')
  nD, npinhole = D.shape[1], pinhole.shape[1]
  assert npinhole==1
  pinhole = pinhole.ravel()
  nRays = nD
  dgeom = {'D':D, 'pinhole':pinhole, 'nRays':nRays}
  \<close>
\<close>

definition dgeom_from_pinhole :: "'a ndarray \<Rightarrow> 'a ndarray \<Rightarrow> error + 'a rays_dgeom" where
  "dgeom_from_pinhole D0 p =
     (case checkformat_Du p ''pinhole'' of
        Inl e \<Rightarrow> Inl e
      | Inr pinhole \<Rightarrow>
          if shape pinhole ! 1 \<noteq> 1 then Inl (AssertionError [])
          else Inr \<lparr>dg_D = D0, dg_u = None, dg_pinhole = Some (data pinhole),
                    dg_nRays = shape D0 ! 1\<rparr>)"

text \<open>
  The branch for directions (\<^verbatim>\<open>else:\<close>):
  \<^verbatim>\<open>
  u = _checkformat_Du(u, 'u')
  u = u/np.sqrt(np.sum(u**2,axis=0))[np.newaxis,:]
  nD, nu = D.shape[1], u.shape[1]
  C0 = nD==1 and nu>1
  C1 = nD>1 and nu==1
  C2 = nD==nu
  msg = "The number of rays is ambiguous from D and u shapes !"
  assert C0 or C1 or C2, msg
  nRays = max(nD,nu)
  dgeom = {'D':D, 'u':u, 'nRays':nRays}
  \<close>
\<close>

definition dgeom_from_u ::
  "'a float_ops \<Rightarrow> 'a ndarray \<Rightarrow> 'a ndarray \<Rightarrow> error + 'a rays_dgeom" where
  "dgeom_from_u ops D0 u0 =
     (case checkformat_Du u0 ''u'' of
        Inl e \<Rightarrow> Inl e
      | Inr u1 \<Rightarrow>
          (let u2 = normalize_cols ops u1;
               nD = shape D0 ! 1; nu = shape u2 ! 1;
               C0 = (nD = 1 \<and> nu > 1);
               C1 = (nD > 1 \<and> nu = 1);
               C2 = (nD = nu)
           in if \<not> (C0 \<or> C1 \<or> C2) then Inl (AssertionError nRays_msg)
              else Inr \<lparr>dg_D = D0, dg_u = Some u2, dg_pinhole = None,
                        dg_nRays = max nD nu\<rparr>))"

text \<open>
  \<^verbatim>\<open>Rays._checkformat_inputs_dgeom(dgeom)\<close>:
  \<^verbatim>\<open>
  assert dgeom is not None
  C0 = (isinstance(dgeom,dict) and all([k in dgeom.keys() for k in ['D','u']]))
  C1 = (isinstance(dgeom,dict) and all([k in dgeom.keys() for k in ['D','pinhole']]))
  C2 = isinstance(dgeom,tuple) and len(dgeom)==2
  assert C0 or C1 or C2, msg
  D = dgeom[0] if C2 else dgeom['D']
  D = _checkformat_Du(D, 'D')
  if C1: ... else: u = dgeom[1] if C2 else dgeom['u'] ...
  \<close>
\<close>

definition Rays_checkformat_inputs_dgeom ::
  "'a float_ops \<Rightarrow> 'a dgeom_arg \<Rightarrow> error + 'a rays_dgeom" where
  "Rays_checkformat_inputs_dgeom ops dgeom =
     (case dgeom of
        DgeomNone \<Rightarrow> Inl (AssertionError [])
      | DgeomDict d \<Rightarrow>
          (case (d ''D'', d ''u'', d ''pinhole'') of
             (Some D0, _, Some p) \<Rightarrow>
               (case checkformat_Du D0 ''D'' of
                  Inl e \<Rightarrow> Inl e
                | Inr D1 \<Rightarrow> dgeom_from_pinhole D1 p)
           | (Some D0, Some u0, None) \<Rightarrow>
               (case checkformat_Du D0 ''D'' of
                  Inl e \<Rightarrow> Inl e
                | Inr D1 \<Rightarrow> dgeom_from_u ops D1 u0)
           | _ \<Rightarrow> Inl (AssertionError dgeom_msg))
      | DgeomTuple t \<Rightarrow>
          (case t of
             [D0, u0] \<Rightarrow>
               (case checkformat_Du D0 ''D'' of
                  Inl e \<Rightarrow> Inl e
                | Inr D1 \<Rightarrow> dgeom_from_u ops D1 u0)
           | _ \<Rightarrow> Inl (AssertionError dgeom_msg)))"

section \<open>Rays: storing the intersection results\<close>

text \<open>
  \<^verbatim>\<open>kMin\<close> and \<^verbatim>\<open>kMax\<close> are float arrays in which the intersection engine
  marks unresolved rays with \<^verbatim>\<open>NaN\<close> or an infinity. Only that classification
  matters to the code below, so a float is a finite value of any type, an infinity or
  \<^verbatim>\<open>NaN\<close>.
\<close>

datatype 'a float64 = Finite 'a | PosInf | NegInf | NaN

fun isnan :: "'a float64 \<Rightarrow> bool" where
  "isnan NaN = True"
| "isnan _ = False"

fun isinf :: "'a float64 \<Rightarrow> bool" where
  "isinf PosInf = True"
| "isinf NegInf = True"
| "isinf _ = False"

text \<open>
  What \<^verbatim>\<open>_GG.LOS_Calc_PInOut_VesStruct\<close> returned (the engine is not among the
  sources): of the eight arrays only \<^verbatim>\<open>kMin\<close>, \<^verbatim>\<open>kMax\<close>, \<^verbatim>\<open>vperp\<close> and
  \<^verbatim>\<open>indout\<close> are used after the call.
\<close>

record ('a, 'v, 'i) pinout =
  out_kMin :: "'a float64 list"
  out_kMax :: "'a float64 list"
  out_vperp :: 'v
  out_indout :: 'i

text \<open>
  The part of a \<^verbatim>\<open>Rays\<close> object that \<^verbatim>\<open>_compute_dgeom\<close> reads and writes:
  whether a config is set (and then whether its reference \<^verbatim>\<open>PlasmaDomain\<close> answers
  \<^verbatim>\<open>get_compute()\<close> with true), the four entries of \<^verbatim>\<open>self._dgeom\<close> it updates
  (\<^verbatim>\<open>None\<close> after \<^verbatim>\<open>_reset\<close>), and the warnings issued so far.
\<close>

record ('a, 'v, 'i) rays =
  config :: "bool option"
  dgeom_kMin :: "'a float64 list option"
  dgeom_kMax :: "'a float64 list option"
  dgeom_vperp :: "'v option"
  dgeom_indout :: "'i option"
  warnings :: "string list"

definition noconfig_msg :: string where
  "noconfig_msg = ''The dgeom cannot be computed without a config !''"

definition novis_msg :: string where
  "novis_msg = ''Some LOS have no visibility inside the plasma domain !''"

text \<open>
  \<^verbatim>\<open>ind = np.isnan(kMax) | np.isinf(kMax)\<close> as the list of the ray indices it selects.
\<close>

definition flagged_rays :: "'a float64 list \<Rightarrow> nat list" where
  "flagged_rays kMax = filter (\<lambda>i. isnan (kMax ! i) \<or> isinf (kMax ! i)) [0..<length kMax]"

text \<open>
  \<^verbatim>\<open>Rays._compute_dgeom(self, extra=True)\<close>, from the engine's result on:
  \<^verbatim>\<open>
  if self._dconfig['config'] is None:
      warnings.warn("The dgeom cannot be computed without a config !")
      return
  ...
  assert S.get_compute()
  ...
  PIn, POut, kMin, kMax, VperpIn, vperp, IIn, indout = out
  ind = np.isnan(kMin)
  kMin[ind] = 0.
  ind = np.isnan(kMax) | np.isinf(kMax)
  if np.any(ind):
      kMax[ind] = np.nan
      msg = "Some LOS have no visibility inside the plasma domain !"
      warnings.warn(msg)
      if plotdebug:
          _plot._LOS_calc_InOutPolProj_Debug(...)
  dd = {'kMin':kMin, 'kMax':kMax, 'vperp':vperp, 'indout':indout}
  self._dgeom.update(dd)
  if extra:
      self._compute_dgeom_kRMin()
      self._compute_dgeom_extra1()
      self._compute_dgeom_extra2D()
  \<close>
  The name \<^verbatim>\<open>plotdebug\<close> is a parameter of the \<^verbatim>\<open>__init__\<close> methods only: in
  \<^verbatim>\<open>_compute_dgeom\<close> it is neither a parameter, a local nor a name of the module, so
  evaluating \<^verbatim>\<open>if plotdebug:\<close> raises \<^verbatim>\<open>NameError\<close>. That line is reached exactly
  when \<^verbatim>\<open>np.any(ind)\<close> holds, after the warning and before the update of
  \<^verbatim>\<open>self._dgeom\<close>. The result is the exception raised, if any, and the object as the
  call leaves it. The three calls under \<^verbatim>\<open>if extra:\<close> are the parameter
  \<^verbatim>\<open>extras\<close>.
\<close>

definition Rays_compute_dgeom ::
  "('a::zero, 'v, 'i) rays \<Rightarrow> ('a, 'v, 'i) pinout \<Rightarrow> bool
     \<Rightarrow> (('a, 'v, 'i) rays \<Rightarrow> (error + unit) \<times> ('a, 'v, 'i) rays)
     \<Rightarrow> (error + unit) \<times> ('a, 'v, 'i) rays" where
  "Rays_compute_dgeom self out extra extras =
     (case config self of
        None \<Rightarrow> (Inr (), self\<lparr>warnings := warnings self @ [noconfig_msg]\<rparr>)
      | Some compute \<Rightarrow>
          if \<not> compute then (Inl (AssertionError []), self)
          else
            (let kMin = map (\<lambda>k. if isnan k then Finite 0 else k) (out_kMin out);
                 ind = map (\<lambda>k. isnan k \<or> isinf k) (out_kMax out)
             in if list_ex (\<lambda>b. b) ind then
                  (Inl (NameError ''plotdebug''),
                   self\<lparr>warnings := warnings self @ [novis_msg]\<rparr>)
                else
                  (let self' = self\<lparr>dgeom_kMin := Some kMin,
                                     dgeom_kMax := Some (out_kMax out),
                                     dgeom_vperp := Some (out_vperp out),
                                     dgeom_indout := Some (out_indout out)\<rparr>
                   in if extra then extras self' else (Inr (), self'))))"

section \<open>Config: containment over a collection of structures\<close>

text \<open>
  \<^verbatim>\<open>np.any(indi,axis=0)\<close> and \<^verbatim>\<open>np.all(indi,axis=0)\<close>: the first axis is reduced,
  the other axes stay. An array without axes has no axis 0.
\<close>

definition any_axis0 :: "bool ndarray \<Rightarrow> error + bool ndarray" where
  "any_axis0 a =
     (case shape a of
        [] \<Rightarrow> Inl (AxisError ''axis 0 is out of bounds for array of dimension 0'')
      | r # rest \<Rightarrow>
          Inr \<lparr>shape = rest,
               data = map (\<lambda>k. list_ex (\<lambda>i. data a ! (i * prod_list rest + k)) [0..<r])
                          [0..<prod_list rest]\<rparr>)"

definition all_axis0 :: "bool ndarray \<Rightarrow> error + bool ndarray" where
  "all_axis0 a =
     (case shape a of
        [] \<Rightarrow> Inl (AxisError ''axis 0 is out of bounds for array of dimension 0'')
      | r # rest \<Rightarrow>
          Inr \<lparr>shape = rest,
               data = map (\<lambda>k. list_all (\<lambda>i. data a ! (i * prod_list rest + k)) [0..<r])
                          [0..<prod_list rest]\<rparr>)"

text \<open>
  \<^verbatim>\<open>ind[ii,:] = indi\<close> for a row of \<^verbatim>\<open>nP\<close> entries: numpy broadcasts the value,
  which may carry leading axes of length 1 and must then be a single element or \<^verbatim>\<open>nP\<close>
  elements; any other shape raises \<^verbatim>\<open>ValueError\<close>.
\<close>

definition assign_row :: "nat \<Rightarrow> bool ndarray \<Rightarrow> error + bool list" where
  "assign_row nP v =
     (let sh = dropWhile (\<lambda>d. d = 1) (shape v)
      in if sh = [] then Inr (replicate nP (data v ! 0))
         else if sh = [nP] then Inr (data v)
         else Inl (ValueError ''could not broadcast input array''))"

text \<open>
  A member structure as \<^verbatim>\<open>Config.isInside\<close> reads it, and the containment engine
  \<^verbatim>\<open>_GG._Ves_isInside(pts, Poly, Lim=, nLim=, VType=, In=, Test=True)\<close>, which is not among
  the sources and is a parameter.
\<close>

record 'a struct =
  st_Poly :: "'a ndarray"
  st_Lim :: "'a ndarray"
  st_nLim :: nat
  st_Type :: string

type_synonym 'a isInside_engine =
  "'a ndarray \<Rightarrow> 'a ndarray \<Rightarrow> 'a ndarray \<Rightarrow> nat \<Rightarrow> string \<Rightarrow> string \<Rightarrow> error + bool ndarray"

definition call_Ves_isInside ::
  "'a isInside_engine \<Rightarrow> 'a ndarray \<Rightarrow> string \<Rightarrow> 'a struct \<Rightarrow> error + bool ndarray" where
  "call_Ves_isInside Ves_isInside pts In S =
     Ves_isInside pts (st_Poly S) (st_Lim S) (st_nLim S) (st_Type S) In"

text \<open>
  The body of the loop \<^verbatim>\<open>for ii in range(0,self._dstruct['nStruct'])\<close>, for the
  structure \<^verbatim>\<open>lStruct[ii]\<close>: the row that is written into \<^verbatim>\<open>ind[ii,:]\<close>.
  \<^verbatim>\<open>
  indi = _GG._Ves_isInside(pts, lStruct[ii].Poly, ...)
  if lStruct[ii].nLim>1:
      if log=='any':
          indi = np.any(indi,axis=0)
      else:
          indi = np.all(indi,axis=0)
  ind[ii,:] = indi
  \<close>
\<close>

definition isInside_row ::
  "'a isInside_engine \<Rightarrow> 'a ndarray \<Rightarrow> string \<Rightarrow> string \<Rightarrow> nat \<Rightarrow> 'a struct
     \<Rightarrow> error + bool list" where
  "isInside_row Ves_isInside pts In log0 nP S =
     (case call_Ves_isInside Ves_isInside pts In S of
        Inl e \<Rightarrow> Inl e
      | Inr indi \<Rightarrow>
          (case (if st_nLim S > 1
                 then (if log0 = ''any'' then any_axis0 indi else all_axis0 indi)
                 else Inr indi) of
             Inl e \<Rightarrow> Inl e
           | Inr indi' \<Rightarrow> assign_row nP indi'))"

text \<open>The loop over \<^verbatim>\<open>self.lStruct\<close>: it stops at the first structure that raises.\<close>

fun isInside_rows ::
  "'a isInside_engine \<Rightarrow> 'a ndarray \<Rightarrow> string \<Rightarrow> string \<Rightarrow> nat \<Rightarrow> 'a struct list
     \<Rightarrow> error + bool list list" where
  "isInside_rows Ves_isInside pts In log0 nP [] = Inr []"
| "isInside_rows Ves_isInside pts In log0 nP (S # Ss) =
     (case isInside_row Ves_isInside pts In log0 nP S of
        Inl e \<Rightarrow> Inl e
      | Inr row \<Rightarrow>
          (case isInside_rows Ves_isInside pts In log0 nP Ss of
             Inl e \<Rightarrow> Inl e
           | Inr rows \<Rightarrow> Inr (row # rows)))"

text \<open>
  \<^verbatim>\<open>Config.isInside(self, pts, In='(X,Y,Z)', log='any')\<close>. \<^verbatim>\<open>pts\<close> is an
  \<^verbatim>\<open>np.ndarray\<close> by typing. \<^verbatim>\<open>self._dstruct['nStruct']\<close> is the length of
  \<^verbatim>\<open>self.lStruct\<close> (\<^verbatim>\<open>_set_dstruct\<close> stores \<^verbatim>\<open>len(lStruct)\<close> and one entry of
  \<^verbatim>\<open>lorder\<close> per structure).
  \<^verbatim>\<open>
  assert isinstance(pts,np.ndarray) and pts.ndim in [1,2], msg
  assert log in ['any','all'], msg
  if pts.ndim==1:
      assert pts.size in [2,3], msg
      pts = pts.reshape((pts.size,1)).astype(float)
  else:
      assert pts.shape[0] in [2,3], pts
  nP = pts.shape[1]
  ind = np.zeros((self._dstruct['nStruct'],nP), dtype=bool)
  \<close>
\<close>

definition log_msg :: string where
  "log_msg = ''Arg log must be in ['' @ [CHR 0x27] @ ''any'' @ [CHR 0x27] @ '','' @ [CHR 0x27]
     @ ''all'' @ [CHR 0x27] @ '']''"

definition Config_isInside ::
  "'a isInside_engine \<Rightarrow> 'a struct list \<Rightarrow> 'a ndarray \<Rightarrow> string \<Rightarrow> string
     \<Rightarrow> error + bool ndarray" where
  "Config_isInside Ves_isInside lStruct pts In log0 =
     (if ndim pts \<notin> {1, 2} then Inl (AssertionError ''Arg pts must be a 1D or 2D np.ndarray !'')
      else if log0 \<notin> {''any'', ''all''} then Inl (AssertionError log_msg)
      else
        (case (if ndim pts = 1 then
                 (if size_nd pts \<notin> {2, 3}
                  then Inl (AssertionError ''Arg pts must contain the coordinates of a point !'')
                  else Inr (reshape [size_nd pts, 1] pts))
               else
                 (if shape pts ! 0 \<notin> {2, 3} then Inl (AssertionError [])
                  else Inr pts)) of
           Inl e \<Rightarrow> Inl e
         | Inr pts' \<Rightarrow>
             (let nP = shape pts' ! 1
              in case isInside_rows Ves_isInside pts' In log0 nP lStruct of
                   Inl e \<Rightarrow> Inl e
                 | Inr rows \<Rightarrow> Inr \<lparr>shape = [length lStruct, nP], data = concat rows\<rparr>)))"

section \<open>Notions used in the statements\<close>

text \<open>
  A limits argument is called degenerate when it is a 2D array none of whose dimensions
  is 2, other than the array of shape \<^verbatim>\<open>(0,0)\<close>. The check of \<^verbatim>\<open>Struct\<close> accepts
  such an array only when one of its dimensions is 0, so an accepted degenerate argument
  has no elements.
\<close>

definition degenerate_Lim :: "'a pyarg \<Rightarrow> bool" where
  "degenerate_Lim Lim0 =
     (case Lim0 of
        PyArray L \<Rightarrow> ndim L = 2 \<and> 2 \<notin> set (shape L) \<and> shape L \<noteq> [0, 0]
      | _ \<Rightarrow> False)"

text \<open>
  What the specification says of the containment engine (Containment Engine, Contract):
  for a batch of \<open>N\<close> points it returns a boolean array of shape \<^verbatim>\<open>(N,)\<close> if
  \<^verbatim>\<open>nLim\<close> is at most 1, and of shape \<^verbatim>\<open>(nLim, N)\<close> otherwise. Here this is required
  of the engine, with a well-formed array, on every structure of a list.
\<close>

definition engine_contract ::
  "'a isInside_engine \<Rightarrow> 'a ndarray \<Rightarrow> string \<Rightarrow> nat \<Rightarrow> 'a struct list \<Rightarrow> bool" where
  "engine_contract Ves_isInside pts In N lStruct =
     list_all (\<lambda>S. case call_Ves_isInside Ves_isInside pts In S of
                      Inl e \<Rightarrow> False
                    | Inr a \<Rightarrow> wf_nd a
                        \<and> shape a = (if st_nLim S \<le> 1 then [N] else [st_nLim S, N]))
              lStruct"

section \<open>Example inputs\<close>

text \<open>
  The unit square as a polygon in the \<^verbatim>\<open>(2,N)\<close> layout and in the \<^verbatim>\<open>(N,2)\<close>
  layout, and a polygon of two vertices.
\<close>

definition square :: "real ndarray" where
  "square = \<lparr>shape = [2, 4], data = [0, 1, 1, 0, 0, 0, 1, 1]\<rparr>"

definition square_T :: "real ndarray" where
  "square_T = \<lparr>shape = [4, 2], data = [0, 0, 1, 0, 1, 1, 0, 1]\<rparr>"

definition segment :: "real ndarray" where
  "segment = \<lparr>shape = [2, 2], data = [0, 1, 0, 1]\<rparr>"

text \<open>
  The unit square given with its closing point, the unit square in clockwise order, and
  real arithmetic standing for the float operations of the signed area.
\<close>

definition square_closed :: "real ndarray" where
  "square_closed = \<lparr>shape = [2, 5], data = [0, 1, 1, 0, 0, 0, 0, 1, 1, 0]\<rparr>"

definition square_cw :: "real ndarray" where
  "square_cw = \<lparr>shape = [2, 4], data = [0, 0, 1, 1, 0, 1, 1, 0]\<rparr>"

definition real_area_ops :: "real area_ops" where
  "real_area_ops = \<lparr>a_add = (+), a_sub = (-), a_mul = (*), a_negative = (\<lambda>x. x < 0)\<rparr>"

text \<open>Limits: one window given as a pair, and two zero-size 2D arrays.\<close>

definition Lim_pair :: "real ndarray" where
  "Lim_pair = \<lparr>shape = [2], data = [0, 1]\<rparr>"

definition Lim_0x3 :: "real ndarray" where
  "Lim_0x3 = \<lparr>shape = [0, 3], data = []\<rparr>"

definition Lim_3x0 :: "real ndarray" where
  "Lim_3x0 = \<lparr>shape = [3, 0], data = []\<rparr>"

text \<open>Origins and directions of rays, with real arithmetic standing for the float operations.\<close>

definition real_ops :: "real float_ops" where
  "real_ops = \<lparr>f_add = (+), f_mul = (*), f_div = (/), f_sqrt = sqrt\<rparr>"

definition D_one :: "real ndarray" where
  "D_one = \<lparr>shape = [3, 1], data = [2, 0, 0]\<rparr>"

definition u_none :: "real ndarray" where
  "u_none = \<lparr>shape = [3, 0], data = []\<rparr>"

definition u_two :: "real ndarray" where
  "u_two = \<lparr>shape = [3, 2], data = [1, 0, 0, 1, 0, 0]\<rparr>"

text \<open>
  A \<^verbatim>\<open>Rays\<close> object with a config and nothing computed yet, and results of the
  intersection engine for two rays (one ray in \<open>out_nan\<close>).
\<close>

definition rays0 :: "(real, unit, unit) rays" where
  "rays0 = \<lparr>config = Some True, dgeom_kMin = None, dgeom_kMax = None,
            dgeom_vperp = None, dgeom_indout = None, warnings = []\<rparr>"

definition no_extras :: "(real, unit, unit) rays \<Rightarrow> (error + unit) \<times> (real, unit, unit) rays" where
  "no_extras s = (Inr (), s)"

definition out_ok :: "(real, unit, unit) pinout" where
  "out_ok = \<lparr>out_kMin = [NaN, Finite 1], out_kMax = [Finite 2, Finite 3],
             out_vperp = (), out_indout = ()\<rparr>"

definition out_inf :: "(real, unit, unit) pinout" where
  "out_inf = \<lparr>out_kMin = [NaN, Finite 1], out_kMax = [Finite 2, PosInf],
              out_vperp = (), out_indout = ()\<rparr>"

definition out_nan :: "(real, unit, unit) pinout" where
  "out_nan = \<lparr>out_kMin = [Finite 1], out_kMax = [NaN], out_vperp = (), out_indout = ()\<rparr>"

definition out_first :: "(real, unit, unit) pinout" where
  "out_first = \<lparr>out_kMin = [Finite 0, Finite 1], out_kMax = [NaN, Finite 3],
                out_vperp = (), out_indout = ()\<rparr>"

definition out_second :: "(real, unit, unit) pinout" where
  "out_second = \<lparr>out_kMin = [Finite 0, Finite 1], out_kMax = [Finite 3, NaN],
                 out_vperp = (), out_indout = ()\<rparr>"

text \<open>
  Two points, a structure without limits and one with two occurrences, and an engine
  that finds the first point inside the first structure and inside the first occurrence
  of the second.
\<close>

definition pts_two :: "real ndarray" where
  "pts_two = \<lparr>shape = [2, 2], data = [1, 3, 0, 0]\<rparr>"

definition S_full :: "real struct" where
  "S_full = \<lparr>st_Poly = square, st_Lim = ddef_Lim, st_nLim = 0, st_Type = ''Tor''\<rparr>"

definition S_sectors :: "real struct" where
  "S_sectors = \<lparr>st_Poly = square, st_Lim = \<lparr>shape = [2, 2], data = [0, 1, 2, 3]\<rparr>,
                st_nLim = 2, st_Type = ''Tor''\<rparr>"

definition engine0 :: "real isInside_engine" where
  "engine0 pts Poly Lim1 nLim VType In =
     (if nLim \<le> 1 then Inr \<lparr>shape = [2], data = [True, False]\<rparr>
      else Inr \<lparr>shape = [2, 2], data = [True, False, False, False]\<rparr>)"

section \<open>Properties of the input checks of Struct and Ves\<close>

lemmas eval_defs = Struct_checkformat_inputs_dgeom_def Ves_checkformat_inputs_dgeom_def
  PlasmaDomain_checkformat_inputs_dgeom_def checkformat_Poly_def checkformat_Lim_def
  ddef_Lim_def ddef_Type_def ddef_arrayorder_def ndim_def size_nd_def reshape_def
  transpose_nd_def

lemma size_transpose_nd: "size_nd (transpose_nd a) = size_nd a"
  by (auto simp: transpose_nd_def size_nd_def split: list.splits)

lemma size_reshape: "size_nd (reshape sh a) = prod_list sh"
  by (simp add: reshape_def size_nd_def)

lemma shape_transpose_nd: "shape a = [r, c] \<Longrightarrow> shape (transpose_nd a) = [c, r]"
  by (simp add: transpose_nd_def)

text \<open>The transposed array holds at \<open>[j,i]\<close> what the array holds at \<open>[i,j]\<close>.\<close>

lemma transpose_nd_nth:
  assumes "shape a = [r, c]" and "i < r" and "j < c"
  shows "data (transpose_nd a) ! (j * r + i) = data a ! (i * c + j)"
proof -
  have "j * r + i < r + j * r" using assms(2) by simp
  also have "\<dots> = Suc j * r" by simp
  also have "\<dots> \<le> c * r" using assms(3) by (simp only: Suc_le_eq[symmetric] mult_le_mono1)
  finally have lt: "j * r + i < r * c" by (simp add: mult.commute)
  have "(j * r + i) mod r = i" "(j * r + i) div r = j" using assms(2) by simp_all
  with lt assms(1) show ?thesis by (simp add: transpose_nd_def)
qed

lemma ndim2_shape: "ndim P = 2 \<Longrightarrow> \<exists>a b. shape P = [a, b]"
  by (cases "shape P" rule: list.exhaust; simp add: ndim_def)
     (metis length_0_conv length_Suc_conv)

text \<open>The normalisation of the limits keeps the number of elements.\<close>

lemma checkformat_Lim_size:
  "checkformat_Lim (PyArray L) = Inr L' \<Longrightarrow> size_nd L' = size_nd L"
  by (auto simp: checkformat_Lim_def size_transpose_nd size_reshape split: if_splits)

lemma checkformat_Lim_None: "checkformat_Lim PyNone = Inr ddef_Lim"
  by (simp add: checkformat_Lim_def ddef_Lim_def ndim_def size_nd_def)

lemma checkformat_Poly_layout:
  "checkformat_Poly (PyArray P) = Inr P' \<Longrightarrow>
     ndim P = 2 \<and> 2 \<in> set (shape P) \<and> P' = (if shape P ! 0 = 2 then P else transpose_nd P)"
  by (auto simp: checkformat_Poly_def split: if_splits)

lemma checkformat_Poly_rejects:
  "ndim P \<noteq> 2 \<or> 2 \<notin> set (shape P) \<Longrightarrow> checkformat_Poly (PyArray P) = Inl (AssertionError [])"
  by (auto simp: checkformat_Poly_def)

text \<open>What a successful check says about its parts.\<close>

lemma Struct_Inr_Lim:
  "Struct_checkformat_inputs_dgeom Poly Lim0 mobile Type Clock ao = Inr (P, L', T', ao')
   \<Longrightarrow> checkformat_Lim Lim0 = Inr L' \<and> checkformat_Poly Poly = Inr P
       \<and> T' = (case Type of None \<Rightarrow> ddef_Type | Some t \<Rightarrow> t) \<and> T' \<in> {''Tor'', ''Lin''}
       \<and> (T' = ''Lin'' \<longrightarrow> 0 < size_nd L')"
  by (auto simp: Struct_checkformat_inputs_dgeom_def Let_def split: if_splits sum.splits)

lemma Ves_Inl_if_Struct_Inl:
  "Struct_checkformat_inputs_dgeom Poly Lim0 mobile Type Clock ao = Inl e
   \<Longrightarrow> Ves_checkformat_inputs_dgeom Poly Lim0 mobile Type Clock ao = Inl e"
  by (simp add: Ves_checkformat_inputs_dgeom_def)

text \<open>
  The check of \<^verbatim>\<open>Struct._checkformat_inputs_dgeom\<close> itself does not count the
  vertices: a polygon of two vertices passes it. The count is left to the geometry
  builder.
\<close>

lemma checkformat_accepts_two_vertices:
  "Struct_checkformat_inputs_dgeom (PyArray segment) PyNone False None False None
     = Inr (segment, ddef_Lim, ''Tor'', ''C'')"
  by (simp add: eval_defs segment_def)

text \<open>
  Claim C4. With \<^verbatim>\<open>Type='Lin'\<close>, an empty \<^verbatim>\<open>Lim\<close> (\<^verbatim>\<open>None\<close>, \<^verbatim>\<open>[]\<close> or any
  array of size zero) makes \<^verbatim>\<open>Struct._checkformat_inputs_dgeom\<close> raise, whatever the
  other arguments are; and a \<^verbatim>\<open>Lim\<close> that is not empty and has a valid shape (one
  dimension and size 2, or two dimensions one of which is 2) passes, the polygon and
  \<^verbatim>\<open>arrayorder\<close> being valid.
\<close>

theorem Lin_requires_nonempty_Lim:
  "(Type = Some ''Lin'' \<and> (Lim0 = PyNone \<or> (\<exists>L. Lim0 = PyArray L \<and> size_nd L = 0)) \<longrightarrow>
      (\<exists>e. Struct_checkformat_inputs_dgeom Poly Lim0 mobile Type Clock ao = Inl e))
   \<and> (Type = Some ''Lin'' \<and> Lim0 = PyArray L \<and> 0 < size_nd L
       \<and> (ndim L = 1 \<and> size_nd L = 2 \<or> ndim L = 2 \<and> 2 \<in> set (shape L))
       \<and> Poly = PyArray P \<and> ndim P = 2 \<and> 2 \<in> set (shape P)
       \<and> ao \<in> {None, Some ''C'', Some ''F''} \<longrightarrow>
      (\<exists>r. Struct_checkformat_inputs_dgeom Poly Lim0 mobile Type Clock ao = Inr r))"
proof (intro conjI impI)
  assume h: "Type = Some ''Lin'' \<and> (Lim0 = PyNone \<or> (\<exists>L. Lim0 = PyArray L \<and> size_nd L = 0))"
  show "\<exists>e. Struct_checkformat_inputs_dgeom Poly Lim0 mobile Type Clock ao = Inl e"
  proof (cases "Struct_checkformat_inputs_dgeom Poly Lim0 mobile Type Clock ao")
    case (Inl e)
    then show ?thesis by simp
  next
    case (Inr r)
    obtain P1 L1 T1 ao1 where r: "r = (P1, L1, T1, ao1)" by (cases r) auto
    from Inr r Struct_Inr_Lim[of Poly Lim0 mobile Type Clock ao P1 L1 T1 ao1]
    have k: "checkformat_Lim Lim0 = Inr L1" "T1 = ''Lin''" "T1 = ''Lin'' \<longrightarrow> 0 < size_nd L1"
      using h by auto
    from h k(1) have "size_nd L1 = 0"
      by (auto simp: checkformat_Lim_None ddef_Lim_def size_nd_def dest: checkformat_Lim_size)
    with k show ?thesis by simp
  qed
next
  assume h: "Type = Some ''Lin'' \<and> Lim0 = PyArray L \<and> 0 < size_nd L
       \<and> (ndim L = 1 \<and> size_nd L = 2 \<or> ndim L = 2 \<and> 2 \<in> set (shape L))
       \<and> Poly = PyArray P \<and> ndim P = 2 \<and> 2 \<in> set (shape P)
       \<and> ao \<in> {None, Some ''C'', Some ''F''}"
  then have "\<exists>P'. checkformat_Poly Poly = Inr P'"
    by (simp add: checkformat_Poly_def)
  then obtain P' where p: "checkformat_Poly Poly = Inr P'" by blast
  from h have "ndim L = 1 \<longrightarrow> 2 \<in> set (shape L)"
    by (cases "shape L") (auto simp: ndim_def size_nd_def)
  with h have "\<exists>L'. checkformat_Lim Lim0 = Inr L'"
    by (auto simp: checkformat_Lim_def)
  then obtain L' where l: "checkformat_Lim Lim0 = Inr L'" by blast
  with h have "0 < size_nd L'" by (auto dest: checkformat_Lim_size)
  with h p l show "\<exists>r. Struct_checkformat_inputs_dgeom Poly Lim0 mobile Type Clock ao = Inr r"
    by (auto simp: Struct_checkformat_inputs_dgeom_def ddef_arrayorder_def)
qed

theorem Lin_requires_nonempty_Lim_witness:
  "(\<exists>e. Struct_checkformat_inputs_dgeom (PyArray square) PyNone False (Some ''Lin'') False None
          = Inl e)
   \<and> (\<exists>e. Struct_checkformat_inputs_dgeom (PyArray square) (PyArray Lim_0x3) False
            (Some ''Lin'') False None = Inl e)
   \<and> (\<exists>r. Struct_checkformat_inputs_dgeom (PyArray square) (PyArray Lim_pair) False
            (Some ''Lin'') False None = Inr r)"
proof -
  have z: "size_nd Lim_0x3 = 0" by (simp add: size_nd_def Lim_0x3_def)
  have v: "0 < size_nd Lim_pair \<and> (ndim Lim_pair = 1 \<and> size_nd Lim_pair = 2
             \<or> ndim Lim_pair = 2 \<and> 2 \<in> set (shape Lim_pair))"
    by (simp add: size_nd_def ndim_def Lim_pair_def)
  have q: "ndim square = 2 \<and> 2 \<in> set (shape square)"
    by (simp add: ndim_def square_def)
  from Lin_requires_nonempty_Lim[of "Some ''Lin''" PyNone "PyArray square" False False None]
  have a: "\<exists>e. Struct_checkformat_inputs_dgeom (PyArray square) PyNone False (Some ''Lin'')
             False None = Inl e" by simp
  from z Lin_requires_nonempty_Lim[of "Some ''Lin''" "PyArray Lim_0x3" "PyArray square"
         False False None]
  have b: "\<exists>e. Struct_checkformat_inputs_dgeom (PyArray square) (PyArray Lim_0x3) False
            (Some ''Lin'') False None = Inl e" by simp
  from v q Lin_requires_nonempty_Lim[of "Some ''Lin''" "PyArray Lim_pair" "PyArray square"
         False False None Lim_pair square]
  have c: "\<exists>r. Struct_checkformat_inputs_dgeom (PyArray square) (PyArray Lim_pair) False
            (Some ''Lin'') False None = Inr r" by simp
  from a b c show ?thesis by blast
qed

text \<open>
  Claim C10. \<^verbatim>\<open>Ves._checkformat_inputs_dgeom\<close>, which \<^verbatim>\<open>PlasmaDomain\<close> inherits,
  raises when the type is \<^verbatim>\<open>'Tor'\<close> (given or by default) and \<^verbatim>\<open>Lim\<close> is an array
  that is not empty; and whenever it returns with the type \<^verbatim>\<open>'Tor'\<close>, the limits it
  returns are empty.
\<close>

theorem Ves_Tor_rejects_Lim:
  "((Type = None \<or> Type = Some ''Tor'') \<and> Lim0 = PyArray L \<and> size_nd L \<noteq> 0 \<longrightarrow>
      (\<exists>e. Ves_checkformat_inputs_dgeom Poly Lim0 mobile Type Clock ao = Inl e)
      \<and> (\<exists>e. PlasmaDomain_checkformat_inputs_dgeom Poly Lim0 mobile Type Clock ao = Inl e))
   \<and> (Ves_checkformat_inputs_dgeom Poly Lim0 mobile Type Clock ao = Inr (P, L', ''Tor'', ao')
      \<longrightarrow> size_nd L' = 0)"
proof (intro conjI impI)
  assume h: "(Type = None \<or> Type = Some ''Tor'') \<and> Lim0 = PyArray L \<and> size_nd L \<noteq> 0"
  show ves: "\<exists>e. Ves_checkformat_inputs_dgeom Poly Lim0 mobile Type Clock ao = Inl e"
  proof (cases "Struct_checkformat_inputs_dgeom Poly Lim0 mobile Type Clock ao")
    case (Inl e)
    then show ?thesis by (simp add: Ves_Inl_if_Struct_Inl)
  next
    case (Inr r)
    obtain P1 L1 T1 ao1 where r: "r = (P1, L1, T1, ao1)" by (cases r) auto
    from Inr r Struct_Inr_Lim[of Poly Lim0 mobile Type Clock ao P1 L1 T1 ao1] h
    have "size_nd L1 \<noteq> 0" "T1 = ''Tor''"
      by (auto simp: ddef_Type_def dest: checkformat_Lim_size)
    with Inr r show ?thesis by (simp add: Ves_checkformat_inputs_dgeom_def)
  qed
  then show "\<exists>e. PlasmaDomain_checkformat_inputs_dgeom Poly Lim0 mobile Type Clock ao = Inl e"
    by (simp add: PlasmaDomain_checkformat_inputs_dgeom_def)
next
  assume "Ves_checkformat_inputs_dgeom Poly Lim0 mobile Type Clock ao = Inr (P, L', ''Tor'', ao')"
  then show "size_nd L' = 0"
    by (auto simp: Ves_checkformat_inputs_dgeom_def split: sum.splits if_splits)
qed

theorem Ves_Tor_rejects_Lim_witness:
  "(\<exists>e. Ves_checkformat_inputs_dgeom (PyArray square) (PyArray Lim_pair) False (Some ''Tor'')
          False None = Inl e)
   \<and> (\<exists>e. PlasmaDomain_checkformat_inputs_dgeom (PyArray square) (PyArray Lim_pair) False
          (Some ''Tor'') False None = Inl e)
   \<and> Ves_checkformat_inputs_dgeom (PyArray square) PyNone False None False None
        = Inr (square, ddef_Lim, ''Tor'', ''C'')
   \<and> size_nd (ddef_Lim :: real ndarray) = 0"
proof -
  have h1: "size_nd Lim_pair \<noteq> 0"
    by (simp add: size_nd_def Lim_pair_def)
  have h2: "Ves_checkformat_inputs_dgeom (PyArray square) PyNone False None False None
        = Inr (square, ddef_Lim, ''Tor'', ''C'')"
    by (simp add: eval_defs square_def)
  from h1 Ves_Tor_rejects_Lim[of "Some ''Tor''" "PyArray Lim_pair" Lim_pair "PyArray square"
        False False None]
  have a: "(\<exists>e. Ves_checkformat_inputs_dgeom (PyArray square) (PyArray Lim_pair) False
          (Some ''Tor'') False None = Inl e)
   \<and> (\<exists>e. PlasmaDomain_checkformat_inputs_dgeom (PyArray square) (PyArray Lim_pair) False
          (Some ''Tor'') False None = Inl e)"
    by blast
  from h2 Ves_Tor_rejects_Lim[of None PyNone _ "PyArray square" False False None square ddef_Lim "''C''"]
  have b: "size_nd (ddef_Lim :: real ndarray) = 0" by blast
  from a b h2 show ?thesis by blast
qed

section \<open>Properties of the stored polygon\<close>

lemmas builder_defs = Struct_set_dgeom_def Struct_set_Poly_def n_vertices_def close_Poly_def
  orient_Poly_def open_Poly_def is_clockwise_def signed_area2_def column_def select_cols_def
  real_area_ops_def

lemma wf_transpose_nd: "shape a = [r, c] \<Longrightarrow> wf_nd (transpose_nd a)"
  by (simp add: transpose_nd_def wf_nd_def size_nd_def)

lemma shape_select_cols: "shape (select_cols a js) = [shape a ! 0, length js]"
  by (simp add: select_cols_def Let_def)

lemma index_in_row:
  assumes "i < r" and "j < (m::nat)"
  shows "i * m + j < r * m" and "(i * m + j) div m = i" and "(i * m + j) mod m = j"
proof -
  have "i * m + j < m + i * m" using assms(2) by simp
  also have "\<dots> = Suc i * m" by simp
  also have "\<dots> \<le> r * m" using assms(1) by (simp only: Suc_le_eq[symmetric] mult_le_mono1)
  finally show "i * m + j < r * m" .
  show "(i * m + j) div m = i" "(i * m + j) mod m = j" using assms(2) by simp_all
qed

lemma select_cols_open_close:
  assumes w: "wf_nd Q" and s: "shape Q = [r, n]" and n: "0 < n"
  shows "select_cols (select_cols Q ([0..<n] @ [0])) [0..<n] = Q"
proof -
  let ?Pc = "select_cols Q ([0..<n] @ [0])"
  have sc: "shape ?Pc = [r, Suc n]" using s by (simp add: shape_select_cols)
  have dc: "data ?Pc = map (\<lambda>k. data Q ! ((k div Suc n) * n + ([0..<n] @ [0]) ! (k mod Suc n)))
                          [0..<r * Suc n]"
    using s by (simp add: select_cols_def)
  have len: "length (data Q) = r * n" using w s by (simp add: wf_nd_def size_nd_def)
  have "map (\<lambda>k. data ?Pc ! ((k div n) * Suc n + [0..<n] ! (k mod n))) [0..<r * n]
          = map (\<lambda>k. data Q ! k) [0..<r * n]"
  proof (rule map_cong[OF refl])
    fix k assume "k \<in> set [0..<r * n]"
    then have k: "k < r * n" by simp
    define i where "i = k div n"
    define j where "j = k mod n"
    have j: "j < n" using n by (simp add: j_def)
    have i: "i < r" using k n by (simp add: i_def less_mult_imp_div_less)
    have kij: "i * n + j = k" by (simp add: i_def j_def)
    have jS: "j < Suc n" using j by simp
    from index_in_row[OF i jS]
    have b: "i * Suc n + j < r * Suc n" and dv: "(i * Suc n + j) div Suc n = i"
      and md: "(i * Suc n + j) mod Suc n = j" by simp_all
    have "data ?Pc ! (i * Suc n + [0..<n] ! j)
            = data Q ! (i * n + ([0..<n] @ [0]) ! j)"
      using j b dv md by (simp add: dc del: upt_Suc)
    also have "\<dots> = data Q ! k" using j kij by (simp add: nth_append)
    finally show "data ?Pc ! ((k div n) * Suc n + [0..<n] ! (k mod n)) = data Q ! k"
      by (simp add: i_def j_def)
  qed
  also have "\<dots> = data Q" using map_nth[of "data Q"] len by simp
  finally have "data (select_cols ?Pc [0..<n]) = data Q"
    using sc by (simp add: select_cols_def)
  moreover have "shape (select_cols ?Pc [0..<n]) = shape Q"
    using sc s by (simp add: shape_select_cols)
  ultimately show ?thesis by simp
qed


lemma Struct_set_dgeom_Inr:
  "Struct_set_dgeom ops Poly Lim0 mobile IdType Clock = Inr dg \<Longrightarrow>
     \<exists>Q L T ao. Struct_checkformat_inputs_dgeom Poly Lim0 mobile (Some IdType) Clock None
                   = Inr (Q, L, T, ao)
               \<and> Struct_set_Poly ops Q Clock = Inr (sd_Poly dg)"
  by (auto simp: Struct_set_dgeom_def split: sum.splits)

lemma Struct_set_Poly_Inr:
  "Struct_set_Poly ops Q Clock = Inr S \<Longrightarrow>
     3 \<le> n_vertices Q \<and> S = open_Poly (orient_Poly ops Clock (close_Poly Q))"
  by (auto simp: Struct_set_Poly_def split: if_splits)

lemma shape_close_Poly:
  "shape Q = [2, N] \<Longrightarrow>
     shape (close_Poly Q) = [2, if column Q 0 = column Q (N - 1) then N else Suc N]"
  by (simp add: close_Poly_def n_vertices_def shape_select_cols)

lemma shape_orient_Poly: "shape Pc = [2, m] \<Longrightarrow> shape (orient_Poly ops Clock Pc) = [2, m]"
  by (simp add: orient_Poly_def n_vertices_def shape_select_cols)

lemma shape_open_Poly: "shape Pc = [2, m] \<Longrightarrow> shape (open_Poly Pc) = [2, m - 1]"
  by (simp add: open_Poly_def n_vertices_def shape_select_cols)

lemma stored_shape:
  assumes "shape Q = [2, N]"
  shows "shape (open_Poly (orient_Poly ops Clock (close_Poly Q)))
           = [2, if column Q 0 = column Q (N - 1) then N - 1 else N]"
  using shape_open_Poly[OF shape_orient_Poly[OF shape_close_Poly[OF assms]]] by simp

lemma stored_as_is:
  assumes "wf_nd Q" and "shape Q = [2, N]" and "0 < N"
    and "column Q 0 \<noteq> column Q (N - 1)" and "is_clockwise ops (close_Poly Q) = Clock"
  shows "open_Poly (orient_Poly ops Clock (close_Poly Q)) = Q"
proof -
  have c: "close_Poly Q = select_cols Q ([0..<N] @ [0])"
    using assms(2,4) by (simp add: close_Poly_def n_vertices_def)
  have "orient_Poly ops Clock (close_Poly Q) = close_Poly Q"
    using assms(5) by (simp add: orient_Poly_def)
  moreover have "n_vertices (close_Poly Q) = Suc N"
    using shape_close_Poly[OF assms(2)] assms(4) by (simp add: n_vertices_def)
  ultimately have "open_Poly (orient_Poly ops Clock (close_Poly Q))
                     = select_cols (select_cols Q ([0..<N] @ [0])) [0..<N]"
    using c by (simp add: open_Poly_def)
  with select_cols_open_close[OF assms(1,2,3)] show ?thesis by simp
qed

text \<open>
  The clockwise flag is honoured: the counter-clockwise unit square is stored in
  clockwise order when \<^verbatim>\<open>Clock\<close> is true.
\<close>

lemma clockwise_request_reverses:
  "Struct_set_dgeom real_area_ops (PyArray square) PyNone False ''Tor'' True
     = Inr \<lparr>sd_Poly = square_cw, sd_Clock = True, sd_arrayorder = ''C'', sd_mobile = False\<rparr>"
  by (simp add: eval_defs builder_defs square_def square_cw_def upt_rec)

text \<open>
  Claim C7, as stated, fails: a polygon of shape \<^verbatim>\<open>(2,N)\<close> is not always stored as
  it is. The unit square given with its closing point, of shape \<^verbatim>\<open>(2,5)\<close>, is stored
  without that point, with the shape \<^verbatim>\<open>(2,4)\<close>; and the unit square given in
  clockwise order is stored in counter-clockwise order when \<^verbatim>\<open>Clock\<close> is false.
\<close>

theorem closed_or_clockwise_Poly_not_stored_as_is:
  "shape square_closed = [2, 5]
   \<and> Struct_set_dgeom real_area_ops (PyArray square_closed) PyNone False ''Tor'' False
       = Inr \<lparr>sd_Poly = square, sd_Clock = False, sd_arrayorder = ''C'', sd_mobile = False\<rparr>
   \<and> square \<noteq> square_closed
   \<and> shape square_cw = [2, 4]
   \<and> Struct_set_dgeom real_area_ops (PyArray square_cw) PyNone False ''Tor'' False
       = Inr \<lparr>sd_Poly = square, sd_Clock = False, sd_arrayorder = ''C'', sd_mobile = False\<rparr>
   \<and> square \<noteq> square_cw"
  by (simp add: eval_defs builder_defs square_def square_closed_def square_cw_def upt_rec)


text \<open>
  Claim C7, amended. Construction (\<^verbatim>\<open>Struct._set_dgeom\<close>) succeeds only on a polygon
  with two dimensions, one of them 2, and at least three vertices. The input check then
  hands on an array \<open>Q\<close> of shape \<^verbatim>\<open>(2,N)\<close>: the argument itself when that has the
  shape \<^verbatim>\<open>(2,N)\<close>, and its transpose (the element \<open>[j,i]\<close> being the element
  \<open>[i,j]\<close> of the argument) when it has the shape \<^verbatim>\<open>(N,2)\<close>. The polygon stored is
  \<open>Q\<close> closed, oriented as \<^verbatim>\<open>Clock\<close> asks and opened again: it has the shape
  \<^verbatim>\<open>(2,N)\<close>, or \<^verbatim>\<open>(2,N-1)\<close> when \<open>Q\<close> came with its closing point, and it is
  \<open>Q\<close> as it is when \<open>Q\<close> is open and already oriented as asked. Construction raises
  when the number of dimensions is not 2, when no dimension is 2, and when there are
  fewer than three vertices. The layout and the first two rejections are those of
  \<^verbatim>\<open>Struct._checkformat_inputs_dgeom\<close>; the stored polygon and the rejection on the
  number of vertices are those of the geometry builder as the specification states it.
\<close>

theorem stored_Poly_layout_and_rejection:
  assumes "wf_nd P"
  shows "(Struct_set_dgeom ops (PyArray P) Lim0 mobile IdType Clock = Inr dg \<longrightarrow>
           (\<exists>N Q. 3 \<le> N \<and> shape Q = [2, N]
              \<and> ((shape P = [2, N] \<and> Q = P) \<or>
                 (shape P = [N, 2] \<and> Q = transpose_nd P
                   \<and> (\<forall>i<N. \<forall>j<2. data Q ! (j * N + i) = data P ! (i * 2 + j))))
              \<and> sd_Poly dg = open_Poly (orient_Poly ops Clock (close_Poly Q))
              \<and> shape (sd_Poly dg) = [2, if column Q 0 = column Q (N - 1) then N - 1 else N]
              \<and> (column Q 0 \<noteq> column Q (N - 1) \<and> is_clockwise ops (close_Poly Q) = Clock
                   \<longrightarrow> sd_Poly dg = Q)))
         \<and> ((ndim P \<noteq> 2 \<or> 2 \<notin> set (shape P) \<or> (\<exists>N<3. shape P = [2, N] \<or> shape P = [N, 2])) \<longrightarrow>
              (\<exists>e. Struct_set_dgeom ops (PyArray P) Lim0 mobile IdType Clock = Inl e))"
proof (intro conjI impI)
  assume ok: "Struct_set_dgeom ops (PyArray P) Lim0 mobile IdType Clock = Inr dg"
  from Struct_set_dgeom_Inr[OF ok] obtain Q L T ao where
    c: "Struct_checkformat_inputs_dgeom (PyArray P) Lim0 mobile (Some IdType) Clock None
          = Inr (Q, L, T, ao)"
    and b: "Struct_set_Poly ops Q Clock = Inr (sd_Poly dg)" by blast
  from Struct_Inr_Lim[OF c] have "checkformat_Poly (PyArray P) = Inr Q" by simp
  from checkformat_Poly_layout[OF this]
  have n: "ndim P = 2" and m: "2 \<in> set (shape P)"
    and q: "Q = (if shape P ! 0 = 2 then P else transpose_nd P)" by simp_all
  from Struct_set_Poly_Inr[OF b]
  have v3: "3 \<le> n_vertices Q"
    and st: "sd_Poly dg = open_Poly (orient_Poly ops Clock (close_Poly Q))" by simp_all
  from ndim2_shape[OF n] obtain a b' where s: "shape P = [a, b']" by blast
  have lay: "\<exists>N. 3 \<le> N \<and> shape Q = [2, N] \<and> wf_nd Q
              \<and> ((shape P = [2, N] \<and> Q = P) \<or>
                 (shape P = [N, 2] \<and> Q = transpose_nd P
                   \<and> (\<forall>i<N. \<forall>j<2. data Q ! (j * N + i) = data P ! (i * 2 + j))))"
  proof (cases "a = 2")
    case True
    with s q have "Q = P" by simp
    with s True v3 assms show ?thesis by (auto simp: n_vertices_def)
  next
    case False
    with s m have b2: "b' = 2" by simp
    from False s q have t: "Q = transpose_nd P" by simp
    with s b2 have sh: "shape Q = [2, a]" by (simp add: shape_transpose_nd)
    with v3 have "3 \<le> a" by (simp add: n_vertices_def)
    moreover have "\<forall>i<a. \<forall>j<2. data Q ! (j * a + i) = data P ! (i * 2 + j)"
      using transpose_nd_nth[of P a 2] s b2 t by simp
    moreover have "wf_nd Q" using wf_transpose_nd[OF s] t by simp
    ultimately show ?thesis using s b2 t sh by auto
  qed
  then obtain N where N: "3 \<le> N" "shape Q = [2, N]" "wf_nd Q"
    "(shape P = [2, N] \<and> Q = P) \<or>
       (shape P = [N, 2] \<and> Q = transpose_nd P
         \<and> (\<forall>i<N. \<forall>j<2. data Q ! (j * N + i) = data P ! (i * 2 + j)))" by blast
  have sh: "shape (sd_Poly dg) = [2, if column Q 0 = column Q (N - 1) then N - 1 else N]"
    using stored_shape[OF N(2)] st by simp
  have asis: "column Q 0 \<noteq> column Q (N - 1) \<and> is_clockwise ops (close_Poly Q) = Clock
                \<longrightarrow> sd_Poly dg = Q"
    using stored_as_is[OF N(3) N(2)] N(1) st by simp
  from N(1,2,4) st sh asis
  show "\<exists>N Q. 3 \<le> N \<and> shape Q = [2, N]
              \<and> ((shape P = [2, N] \<and> Q = P) \<or>
                 (shape P = [N, 2] \<and> Q = transpose_nd P
                   \<and> (\<forall>i<N. \<forall>j<2. data Q ! (j * N + i) = data P ! (i * 2 + j))))
              \<and> sd_Poly dg = open_Poly (orient_Poly ops Clock (close_Poly Q))
              \<and> shape (sd_Poly dg) = [2, if column Q 0 = column Q (N - 1) then N - 1 else N]
              \<and> (column Q 0 \<noteq> column Q (N - 1) \<and> is_clockwise ops (close_Poly Q) = Clock
                   \<longrightarrow> sd_Poly dg = Q)"
    by (intro exI[of _ N] exI[of _ Q]) simp
next
  assume bad: "ndim P \<noteq> 2 \<or> 2 \<notin> set (shape P) \<or> (\<exists>N<3. shape P = [2, N] \<or> shape P = [N, 2])"
  show "\<exists>e. Struct_set_dgeom ops (PyArray P) Lim0 mobile IdType Clock = Inl e"
  proof (cases "Struct_set_dgeom ops (PyArray P) Lim0 mobile IdType Clock")
    case (Inl e)
    then show ?thesis by simp
  next
    case (Inr dg)
    from Struct_set_dgeom_Inr[OF Inr] obtain Q L T ao where
      c: "Struct_checkformat_inputs_dgeom (PyArray P) Lim0 mobile (Some IdType) Clock None
            = Inr (Q, L, T, ao)"
      and b: "Struct_set_Poly ops Q Clock = Inr (sd_Poly dg)" by blast
    from Struct_Inr_Lim[OF c] have "checkformat_Poly (PyArray P) = Inr Q" by simp
    from checkformat_Poly_layout[OF this]
    have n: "ndim P = 2" and m: "2 \<in> set (shape P)"
      and q: "Q = (if shape P ! 0 = 2 then P else transpose_nd P)" by simp_all
    from Struct_set_Poly_Inr[OF b] have v3: "3 \<le> n_vertices Q" by simp
    from bad n m obtain N where N: "N < 3" "shape P = [2, N] \<or> shape P = [N, 2]" by blast
    from N(2) q have "n_vertices Q = N"
      by (auto simp: n_vertices_def shape_transpose_nd)
    with v3 N(1) show ?thesis by simp
  qed
qed

theorem stored_Poly_layout_and_rejection_witness:
  "Struct_set_dgeom real_area_ops (PyArray square) PyNone False ''Tor'' False
     = Inr \<lparr>sd_Poly = square, sd_Clock = False, sd_arrayorder = ''C'', sd_mobile = False\<rparr>
   \<and> Struct_set_dgeom real_area_ops (PyArray square_T) PyNone False ''Tor'' False
     = Inr \<lparr>sd_Poly = square, sd_Clock = False, sd_arrayorder = ''C'', sd_mobile = False\<rparr>
   \<and> transpose_nd square_T = square
   \<and> column square 0 \<noteq> column square 3
   \<and> is_clockwise real_area_ops (close_Poly square) = False
   \<and> (\<exists>e. Struct_set_dgeom real_area_ops (PyArray segment) PyNone False ''Tor'' False = Inl e)"
proof -
  let ?dg = "\<lparr>sd_Poly = square, sd_Clock = False, sd_arrayorder = ''C'', sd_mobile = False\<rparr>"
  have w: "wf_nd square" by (simp add: wf_nd_def size_nd_def square_def)
  have wT: "wf_nd square_T" by (simp add: wf_nd_def size_nd_def square_T_def)
  have wS: "wf_nd segment" by (simp add: wf_nd_def size_nd_def segment_def)
  have t: "transpose_nd square_T = square"
    by (simp add: transpose_nd_def square_T_def square_def upt_rec)
  have col: "column square 0 \<noteq> column square 3"
    by (simp add: column_def square_def upt_rec)
  have ccw: "is_clockwise real_area_ops (close_Poly square) = False"
    by (simp add: builder_defs square_def upt_rec)
  have a: "Struct_set_dgeom real_area_ops (PyArray square) PyNone False ''Tor'' False = Inr ?dg"
    by (simp add: eval_defs builder_defs square_def upt_rec)
  have b: "Struct_set_dgeom real_area_ops (PyArray square_T) PyNone False ''Tor'' False = Inr ?dg"
    by (simp add: eval_defs builder_defs square_T_def square_def upt_rec)
  have s: "\<exists>N<3. shape segment = [2, N] \<or> shape segment = [N, 2]"
    by (rule exI[of _ 2]) (simp add: segment_def)
  from stored_Poly_layout_and_rejection[OF w, of real_area_ops PyNone False "''Tor''" False ?dg] a
  obtain N Q where nq: "3 \<le> N" "shape Q = [2, N]"
      "(shape square = [2, N] \<and> Q = square) \<or> (shape square = [N, 2] \<and> Q = transpose_nd square
          \<and> (\<forall>i<N. \<forall>j<2. data Q ! (j * N + i) = data square ! (i * 2 + j)))"
      "column Q 0 \<noteq> column Q (N - 1) \<and> is_clockwise real_area_ops (close_Poly Q) = False
         \<longrightarrow> sd_Poly ?dg = Q"
    by auto
  from nq(1,3) have "N = 4 \<and> Q = square" by (auto simp: square_def)
  with nq(4) col ccw have "sd_Poly ?dg = square" by simp
  moreover
  from stored_Poly_layout_and_rejection[OF wT, of real_area_ops PyNone False "''Tor''" False ?dg,
         THEN conjunct1, THEN mp, OF b]
  have "\<exists>N (Q::real ndarray). 3 \<le> N \<and> shape Q = [2, N]" by blast
  moreover
  from stored_Poly_layout_and_rejection[OF wS, of real_area_ops PyNone False "''Tor''" False] s
  have "\<exists>e. Struct_set_dgeom real_area_ops (PyArray segment) PyNone False ''Tor'' False = Inl e"
    by blast
  ultimately show ?thesis using a b t col ccw by blast
qed

section \<open>Idempotence of the normalisation of the limits\<close>

lemma checkformat_Lim_canonical:
  assumes "checkformat_Lim Lim0 = Inr L'" and "\<not> degenerate_Lim Lim0"
  shows "shape L' = [0] \<or> shape L' = [0, 0] \<or> (\<exists>n. shape L' = [n, 2])"
proof (cases Lim0)
  case PyNone
  with assms(1) show ?thesis by (auto simp: checkformat_Lim_None ddef_Lim_def)
next
  case (PyScalar x)
  with assms(1) show ?thesis by (simp add: checkformat_Lim_def)
next
  case (PyArray L)
  show ?thesis
  proof (cases "ndim L = 1")
    case True
    then obtain k where k: "shape L = [k]"
      by (cases "shape L") (auto simp: ndim_def)
    with assms(1) PyArray True show ?thesis
      by (auto simp: checkformat_Lim_def size_nd_def reshape_def split: if_splits)
  next
    case False
    with assms(1) PyArray have n2: "ndim L = 2"
      by (auto simp: checkformat_Lim_def split: if_splits)
    from ndim2_shape[OF n2] obtain a b where s: "shape L = [a, b]" by blast
    show ?thesis
    proof (cases "b = 2")
      case True
      with assms(1) PyArray s n2 show ?thesis
        by (auto simp: checkformat_Lim_def split: if_splits)
    next
      case b: False
      with assms(1) PyArray s n2 have t: "L' = transpose_nd L"
        by (auto simp: checkformat_Lim_def split: if_splits)
      from assms(2) PyArray n2 s b have "a = 2 \<or> (a = 0 \<and> b = 0)"
        by (auto simp: degenerate_Lim_def)
      with t s show ?thesis by (auto simp: shape_transpose_nd)
    qed
  qed
qed

lemma checkformat_Lim_fixed:
  assumes "shape L' = [0] \<or> (\<exists>n. shape L' = [n, 2])"
  shows "checkformat_Lim (PyArray L') = Inr L'"
  using assms by (auto simp: checkformat_Lim_def ndim_def size_nd_def)

lemma checkformat_Lim_fixed_00:
  assumes "checkformat_Lim Lim0 = Inr L'" and "shape L' = [0, 0]"
  shows "checkformat_Lim (PyArray L') = Inr L'"
proof -
  have d: "data L' = []"
  proof (cases Lim0)
    case PyNone
    with assms show ?thesis by (auto simp: checkformat_Lim_None ddef_Lim_def)
  next
    case (PyScalar x)
    with assms(1) show ?thesis by (simp add: checkformat_Lim_def)
  next
    case (PyArray L)
    with assms have "ndim L = 2 \<and> L' = transpose_nd L"
      by (auto simp: checkformat_Lim_def reshape_def ndim_def split: if_splits)
    then obtain a b where s: "shape L = [a, b]" and t: "L' = transpose_nd L"
      using ndim2_shape by blast
    with assms(2) have "a = 0" "b = 0" by (simp_all add: shape_transpose_nd)
    with s t show ?thesis by (simp add: transpose_nd_def)
  qed
  from assms(2) d have "transpose_nd L' = L'" by (simp add: transpose_nd_def)
  with assms(2) show ?thesis by (simp add: checkformat_Lim_def ndim_def)
qed

lemma checkformat_Lim_degenerate:
  assumes "checkformat_Lim Lim0 = Inr L'" and "degenerate_Lim Lim0"
  shows "checkformat_Lim (PyArray L') \<noteq> Inr L'"
proof -
  from assms(2) obtain L where L: "Lim0 = PyArray L" and n2: "ndim L = 2"
    and no2: "2 \<notin> set (shape L)" and ne: "shape L \<noteq> [0, 0]"
    by (auto simp: degenerate_Lim_def split: pyarg.splits)
  from ndim2_shape[OF n2] obtain a b where s: "shape L = [a, b]" by blast
  from assms(1) L n2 s no2 have z: "a = 0 \<or> b = 0" and t: "L' = transpose_nd L"
    by (auto simp: checkformat_Lim_def split: if_splits)
  from t s have s': "shape L' = [b, a]" by (simp add: shape_transpose_nd)
  from z ne s have ab: "a \<noteq> b" by auto
  from s' no2 s z have "checkformat_Lim (PyArray L') = Inr (transpose_nd L')"
    by (auto simp: checkformat_Lim_def ndim_def)
  moreover from s' have "shape (transpose_nd L') = [a, b]" by (simp add: shape_transpose_nd)
  with s' ab have "transpose_nd L' \<noteq> L'" by auto
  ultimately show ?thesis by simp
qed

lemma Struct_checkformat_refeed:
  assumes "Struct_checkformat_inputs_dgeom Poly Lim0 mobile Type Clock ao = Inr (P, L', T', ao')"
  shows "(Struct_checkformat_inputs_dgeom Poly (PyArray L') mobile Type Clock ao
            = Inr (P, L', T', ao'))
         = (checkformat_Lim (PyArray L') = Inr L')"
  using assms
  by (auto simp: Struct_checkformat_inputs_dgeom_def Let_def split: if_splits sum.splits)

text \<open>
  Claim C8, as stated, fails: an empty array of shape \<^verbatim>\<open>(0,3)\<close> is accepted and
  normalised to the shape \<^verbatim>\<open>(3,0)\<close>, and normalising that again gives the shape
  \<^verbatim>\<open>(0,3)\<close> back, which is a different array.
\<close>

theorem Lim_0x3_not_idempotent:
  "Struct_checkformat_inputs_dgeom (PyArray square) (PyArray Lim_0x3) False None False None
     = Inr (square, Lim_3x0, ''Tor'', ''C'')
   \<and> Struct_checkformat_inputs_dgeom (PyArray square) (PyArray Lim_3x0) False None False None
     = Inr (square, Lim_0x3, ''Tor'', ''C'')
   \<and> Lim_0x3 \<noteq> Lim_3x0"
  by (simp add: eval_defs square_def Lim_0x3_def Lim_3x0_def)

text \<open>
  Claim C8, amended. For every limits argument that \<^verbatim>\<open>Struct._checkformat_inputs_dgeom\<close>
  accepts, feeding the normalised limits back through the same check returns the same
  result, with the identical array, exactly when the argument is not degenerate (a
  zero-size 2D array none of whose dimensions is 2, other than \<^verbatim>\<open>(0,0)\<close>); and then
  the normalised array has the shape \<^verbatim>\<open>(0,)\<close>, \<^verbatim>\<open>(0,0)\<close> or \<^verbatim>\<open>(n,2)\<close>.
\<close>

theorem Lim_normalization_idempotent:
  assumes "Struct_checkformat_inputs_dgeom Poly Lim0 mobile Type Clock ao = Inr (P, L', T', ao')"
  shows "((Struct_checkformat_inputs_dgeom Poly (PyArray L') mobile Type Clock ao
             = Inr (P, L', T', ao'))
          = (\<not> degenerate_Lim Lim0))
         \<and> (\<not> degenerate_Lim Lim0 \<longrightarrow>
              shape L' = [0] \<or> shape L' = [0, 0] \<or> (\<exists>n. shape L' = [n, 2]))"
proof -
  from Struct_Inr_Lim[OF assms] have l: "checkformat_Lim Lim0 = Inr L'" by simp
  have "(checkformat_Lim (PyArray L') = Inr L') = (\<not> degenerate_Lim Lim0)"
  proof (cases "degenerate_Lim Lim0")
    case True
    with checkformat_Lim_degenerate[OF l] show ?thesis by simp
  next
    case False
    from checkformat_Lim_canonical[OF l False]
    have "checkformat_Lim (PyArray L') = Inr L'"
      using checkformat_Lim_fixed[of L'] checkformat_Lim_fixed_00[OF l] by blast
    with False show ?thesis by simp
  qed
  with Struct_checkformat_refeed[OF assms] checkformat_Lim_canonical[OF l]
  show ?thesis by blast
qed

theorem Lim_normalization_idempotent_witness:
  "Struct_checkformat_inputs_dgeom (PyArray square) (PyArray Lim_pair) False None False None
     = Inr (square, \<lparr>shape = [1, 2], data = [0, 1]\<rparr>, ''Tor'', ''C'')
   \<and> Struct_checkformat_inputs_dgeom (PyArray square) (PyArray \<lparr>shape = [1, 2], data = [0, 1]\<rparr>)
        False None False None
     = Inr (square, \<lparr>shape = [1, 2], data = [0, 1]\<rparr>, ''Tor'', ''C'')"
proof -
  have a: "Struct_checkformat_inputs_dgeom (PyArray square) (PyArray Lim_pair) False None False None
     = Inr (square, \<lparr>shape = [1, 2], data = [0, 1]\<rparr>, ''Tor'', ''C'')"
    by (simp add: eval_defs square_def Lim_pair_def)
  have d: "\<not> degenerate_Lim (PyArray Lim_pair)"
    by (simp add: degenerate_Lim_def ndim_def Lim_pair_def)
  from Lim_normalization_idempotent[OF a] d a show ?thesis by blast
qed

section \<open>Properties of the input check of Rays\<close>

lemma checkformat_Du_3N: "shape a = [3, n] \<Longrightarrow> checkformat_Du a name = Inr a"
  by (simp add: checkformat_Du_def ndim_def)

lemma shape_normalize_cols: "shape (normalize_cols ops a) = shape a"
  by (simp add: normalize_cols_def Let_def)

lemma dgeom_from_u_3N:
  assumes "shape D0 = [3, nD]" and "shape u0 = [3, nu]"
  shows "dgeom_from_u ops D0 u0 =
           (if nD = nu \<or> (nD = 1 \<and> 1 < nu) \<or> (1 < nD \<and> nu = 1)
            then Inr \<lparr>dg_D = D0, dg_u = Some (normalize_cols ops u0), dg_pinhole = None,
                      dg_nRays = max nD nu\<rparr>
            else Inl (AssertionError nRays_msg))"
  using assms
  by (auto simp: dgeom_from_u_def checkformat_Du_3N shape_normalize_cols Let_def)

text \<open>
  Claim C5, as stated, fails: one origin (\<open>nD = 1\<close>) with an empty array of directions
  (\<open>nu = 0\<close>) is rejected, although \<open>nD = 1\<close>. The source asks for \<^verbatim>\<open>nu>1\<close> beside
  \<^verbatim>\<open>nD==1\<close>.
\<close>

theorem nRays_singleton_with_empty_raises:
  "shape D_one = [3, 1] \<and> shape u_none = [3, 0]
   \<and> Rays_checkformat_inputs_dgeom real_ops (DgeomTuple [D_one, u_none])
       = Inl (AssertionError nRays_msg)"
  by (simp add: Rays_checkformat_inputs_dgeom_def dgeom_from_u_3N checkformat_Du_3N
      D_one_def u_none_def)

text \<open>
  Claim C5, amended. For origins of shape \<^verbatim>\<open>(3,nD)\<close> and directions of shape
  \<^verbatim>\<open>(3,nu)\<close>, given as a tuple or as a dict with the keys \<^verbatim>\<open>'D'\<close> and \<^verbatim>\<open>'u'\<close>,
  \<^verbatim>\<open>Rays._checkformat_inputs_dgeom\<close> succeeds, with \<^verbatim>\<open>nRays = max(nD,nu)\<close>, exactly
  when \<open>nD = nu\<close>, or \<open>nD = 1\<close> and \<open>nu > 1\<close>, or \<open>nu = 1\<close> and \<open>nD > 1\<close>; in every other
  case it raises the assertion error that says the number of rays is ambiguous.
\<close>

theorem nRays_inference:
  assumes "shape D0 = [3, nD]" and "shape u0 = [3, nu]"
    and "dgeom = DgeomTuple [D0, u0] \<or> dgeom = DgeomDict [''D'' \<mapsto> D0, ''u'' \<mapsto> u0]"
  shows "((\<exists>r. Rays_checkformat_inputs_dgeom ops dgeom = Inr r \<and> dg_nRays r = max nD nu)
            = (nD = nu \<or> (nD = 1 \<and> 1 < nu) \<or> (1 < nD \<and> nu = 1)))
         \<and> (\<not> (nD = nu \<or> (nD = 1 \<and> 1 < nu) \<or> (1 < nD \<and> nu = 1)) \<longrightarrow>
              Rays_checkformat_inputs_dgeom ops dgeom = Inl (AssertionError nRays_msg))"
proof -
  have "Rays_checkformat_inputs_dgeom ops dgeom = dgeom_from_u ops D0 u0"
    using assms(1,3) by (auto simp: Rays_checkformat_inputs_dgeom_def checkformat_Du_3N)
  then show ?thesis
    by (simp add: dgeom_from_u_3N[OF assms(1,2)])
qed

theorem nRays_inference_witness:
  "(\<exists>r. Rays_checkformat_inputs_dgeom real_ops (DgeomTuple [D_one, u_two]) = Inr r
        \<and> dg_nRays r = 2)
   \<and> Rays_checkformat_inputs_dgeom real_ops (DgeomDict [''D'' \<mapsto> u_two, ''u'' \<mapsto> u_none])
        = Inl (AssertionError nRays_msg)"
proof -
  have d: "shape D_one = [3, 1]" by (simp add: D_one_def)
  have u: "shape u_two = [3, 2]" by (simp add: u_two_def)
  have n: "shape u_none = [3, 0]" by (simp add: u_none_def)
  have m: "max (1::nat) 2 = 2" by simp
  from nRays_inference[OF d u, of "DgeomTuple [D_one, u_two]" real_ops]
  have a: "\<exists>r. Rays_checkformat_inputs_dgeom real_ops (DgeomTuple [D_one, u_two]) = Inr r
        \<and> dg_nRays r = 2" unfolding m by simp
  from nRays_inference[OF u n, of "DgeomDict [''D'' \<mapsto> u_two, ''u'' \<mapsto> u_none]" real_ops]
  have b: "Rays_checkformat_inputs_dgeom real_ops (DgeomDict [''D'' \<mapsto> u_two, ''u'' \<mapsto> u_none])
        = Inl (AssertionError nRays_msg)" by simp
  from a b show ?thesis by blast
qed

section \<open>Properties of the stored intersection results\<close>

lemma flagged_rays_Nil:
  "(flagged_rays kMax = []) = (\<not> list_ex (\<lambda>b. b) (map (\<lambda>k. isnan k \<or> isinf k) kMax))"
  by (auto simp: flagged_rays_def filter_empty_conv list_ex_iff all_set_conv_all_nth)

text \<open>
  When no entry of \<^verbatim>\<open>kMax\<close> is \<^verbatim>\<open>NaN\<close> or infinite, the call stores \<^verbatim>\<open>kMin\<close>
  with 0 in place of every \<^verbatim>\<open>NaN\<close>, and \<^verbatim>\<open>kMax\<close>, \<^verbatim>\<open>vperp\<close> and \<^verbatim>\<open>indout\<close> as
  they are, and issues no warning.
\<close>

lemma compute_dgeom_resolved:
  assumes "config self = Some True" and "flagged_rays (out_kMax out) = []"
  shows "Rays_compute_dgeom self out False extras =
           (Inr (), self\<lparr>dgeom_kMin := Some (map (\<lambda>k. if isnan k then Finite 0 else k) (out_kMin out)),
                         dgeom_kMax := Some (out_kMax out),
                         dgeom_vperp := Some (out_vperp out),
                         dgeom_indout := Some (out_indout out)\<rparr>)"
  using assms by (simp add: Rays_compute_dgeom_def flagged_rays_Nil Let_def)

lemma compute_dgeom_resolved_example:
  "Rays_compute_dgeom rays0 out_ok False no_extras =
     (Inr (), rays0\<lparr>dgeom_kMin := Some [Finite 0, Finite 1], dgeom_kMax := Some [Finite 2, Finite 3],
                    dgeom_vperp := Some (), dgeom_indout := Some ()\<rparr>)"
  by (simp add: Rays_compute_dgeom_def rays0_def out_ok_def no_extras_def)

text \<open>
  When some entry of \<^verbatim>\<open>kMax\<close> is \<^verbatim>\<open>NaN\<close> or infinite, the call issues the warning
  and then raises \<^verbatim>\<open>NameError\<close>; \<^verbatim>\<open>self._dgeom\<close> is left as it was.
\<close>

lemma compute_dgeom_flagged:
  assumes "config self = Some True" and "flagged_rays (out_kMax out) \<noteq> []"
  shows "Rays_compute_dgeom self out extra extras =
           (Inl (NameError ''plotdebug''), self\<lparr>warnings := warnings self @ [novis_msg]\<rparr>)"
  using assms by (simp add: Rays_compute_dgeom_def flagged_rays_Nil Let_def)

text \<open>
  Claim C1, at an input where the code departs from it. The engine returns
  \<open>kMin = [NaN, 1]\<close> and \<open>kMax = [2, +inf]\<close>. The claim has \<open>kMin = [0, 1]\<close> and
  \<open>kMax = [2, NaN]\<close> stored in \<^verbatim>\<open>dgeom\<close>; the call raises \<^verbatim>\<open>NameError\<close> after the
  warning, and \<^verbatim>\<open>dgeom\<close> holds neither \<^verbatim>\<open>kMin\<close> nor \<^verbatim>\<open>kMax\<close>.
\<close>

theorem compute_dgeom_inf_kMax_not_stored:
  "Rays_compute_dgeom rays0 out_inf False no_extras =
     (Inl (NameError ''plotdebug''), rays0\<lparr>warnings := [novis_msg]\<rparr>)
   \<and> dgeom_kMin (snd (Rays_compute_dgeom rays0 out_inf False no_extras)) = None
   \<and> dgeom_kMax (snd (Rays_compute_dgeom rays0 out_inf False no_extras)) = None"
  by (simp add: Rays_compute_dgeom_def rays0_def out_inf_def)

text \<open>
  Claim C2, at an input where the code departs from it. For a bundle of one ray without
  a valid crossing (\<open>kMax = [NaN]\<close>) the claim has the call complete normally; it issues
  the warning and raises \<^verbatim>\<open>NameError\<close>.
\<close>

theorem compute_dgeom_nan_kMax_raises:
  "fst (Rays_compute_dgeom rays0 out_nan True no_extras) = Inl (NameError ''plotdebug'')
   \<and> warnings (snd (Rays_compute_dgeom rays0 out_nan True no_extras)) = [novis_msg]"
  by (simp add: Rays_compute_dgeom_def rays0_def out_nan_def)

text \<open>
  Claim C3, as stated, fails: the warning does not tell which rays are affected. With
  the first ray affected and with the second ray affected the warnings are the same.
\<close>

theorem warning_same_for_different_rays:
  "flagged_rays (out_kMax out_first) = [0] \<and> flagged_rays (out_kMax out_second) = [1]
   \<and> warnings (snd (Rays_compute_dgeom rays0 out_first False no_extras))
       = warnings (snd (Rays_compute_dgeom rays0 out_second False no_extras))"
  by (simp add: Rays_compute_dgeom_def rays0_def out_first_def out_second_def flagged_rays_def)

text \<open>
  Claim C3, amended. When some rays have no valid crossing of the reference solid, the
  one warning \<^verbatim>\<open>_compute_dgeom\<close> issues is the fixed message "Some LOS have no
  visibility inside the plasma domain !", whichever rays are affected.
\<close>

theorem warning_is_fixed_message:
  "config self = Some True \<Longrightarrow> flagged_rays (out_kMax out) \<noteq> [] \<Longrightarrow>
     warnings (snd (Rays_compute_dgeom self out extra extras)) = warnings self @ [novis_msg]"
  by (simp add: compute_dgeom_flagged)

theorem warning_is_fixed_message_witness:
  "config rays0 = Some True \<and> flagged_rays (out_kMax out_first) \<noteq> []
   \<and> warnings (snd (Rays_compute_dgeom rays0 out_first False no_extras)) = [novis_msg]"
proof -
  have c: "config rays0 = Some True" by (simp add: rays0_def)
  have f: "flagged_rays (out_kMax out_first) \<noteq> []"
    by (simp add: out_first_def flagged_rays_def)
  have w: "warnings rays0 = []" by (simp add: rays0_def)
  from warning_is_fixed_message[OF c f, of False no_extras] w c f show ?thesis by simp
qed

section \<open>Properties of the containment over a collection\<close>

lemma list_ex_upt: "list_ex P [0..<r] = (\<exists>i<r. P i)"
  by (auto simp: list_ex_iff)

lemma list_all_upt: "list_all P [0..<r] = (\<forall>i<r. P i)"
  by (auto simp: list_all_iff)

lemma assign_row_vector:
  assumes "shape v = [N]" and "length (data v) = N"
  shows "assign_row N v = Inr (data v)"
proof (cases "N = 1")
  case True
  with assms(2) have "[data v ! 0] = data v"
    by (cases "data v") auto
  with True assms(1) show ?thesis by (simp add: assign_row_def)
next
  case False
  with assms(1) show ?thesis by (simp add: assign_row_def)
qed

lemma isInside_row_contract:
  assumes c: "call_Ves_isInside E pts In S = Inr a"
    and w: "wf_nd a"
    and s: "shape a = (if st_nLim S \<le> 1 then [N] else [st_nLim S, N])"
  shows "\<exists>row. isInside_row E pts In log0 N S = Inr row \<and> length row = N
           \<and> (\<forall>j<N. row ! j =
                (if st_nLim S > 1
                 then (if log0 = ''any'' then (\<exists>k<st_nLim S. data a ! (k * N + j))
                       else (\<forall>k<st_nLim S. data a ! (k * N + j)))
                 else data a ! j))"
proof (cases "st_nLim S > 1")
  case False
  with s w have "shape a = [N]" "length (data a) = N"
    by (simp_all add: wf_nd_def size_nd_def)
  from assign_row_vector[OF this] c False show ?thesis
    using \<open>length (data a) = N\<close> by (simp add: isInside_row_def)
next
  case True
  with s have sh: "shape a = [st_nLim S, N]" by simp
  let ?any = "\<lparr>shape = [N], data = map (\<lambda>k. list_ex (\<lambda>i. data a ! (i * N + k)) [0..<st_nLim S]) [0..<N]\<rparr>"
  let ?all = "\<lparr>shape = [N], data = map (\<lambda>k. list_all (\<lambda>i. data a ! (i * N + k)) [0..<st_nLim S]) [0..<N]\<rparr>"
  have a1: "any_axis0 a = Inr ?any" using sh by (simp add: any_axis0_def)
  have a2: "all_axis0 a = Inr ?all" using sh by (simp add: all_axis0_def)
  have r1: "assign_row N ?any = Inr (data ?any)" by (rule assign_row_vector) simp_all
  have r2: "assign_row N ?all = Inr (data ?all)" by (rule assign_row_vector) simp_all
  show ?thesis
  proof (cases "log0 = ''any''")
    case any: True
    with c True a1 r1 have "isInside_row E pts In log0 N S = Inr (data ?any)"
      by (simp add: isInside_row_def)
    with True any show ?thesis by (simp add: list_ex_upt)
  next
    case all: False
    with c True a2 r2 have "isInside_row E pts In log0 N S = Inr (data ?all)"
      by (simp add: isInside_row_def)
    with True all show ?thesis by (simp add: list_all_upt)
  qed
qed

lemma concat_nth_uniform:
  assumes "\<forall>r\<in>set rows. length r = N" and "ii < length rows" and "j < N"
  shows "concat rows ! (ii * N + j) = rows ! ii ! j"
  using assms
proof (induction rows arbitrary: ii)
  case Nil
  then show ?case by simp
next
  case (Cons r rows)
  show ?case
  proof (cases ii)
    case 0
    with Cons.prems show ?thesis by (simp add: nth_append)
  next
    case (Suc i)
    with Cons.prems have "concat rows ! (i * N + j) = rows ! i ! j"
      by (intro Cons.IH) simp_all
    moreover from Cons.prems have "length r = N" by simp
    ultimately show ?thesis using Suc by (simp add: nth_append)
  qed
qed

lemma length_concat_uniform:
  "\<forall>r\<in>set rows. length r = N \<Longrightarrow> length (concat rows) = length rows * N"
  by (induction rows) simp_all

lemma isInside_rows_contract:
  assumes "engine_contract E pts In N Ss"
  shows "\<exists>rows. isInside_rows E pts In log0 N Ss = Inr rows \<and> length rows = length Ss
           \<and> (\<forall>r\<in>set rows. length r = N)
           \<and> (\<forall>ii<length Ss. \<forall>a. call_Ves_isInside E pts In (Ss ! ii) = Inr a \<longrightarrow>
                (\<forall>j<N. rows ! ii ! j =
                  (if st_nLim (Ss ! ii) > 1
                   then (if log0 = ''any'' then (\<exists>k<st_nLim (Ss ! ii). data a ! (k * N + j))
                         else (\<forall>k<st_nLim (Ss ! ii). data a ! (k * N + j)))
                   else data a ! j)))"
  using assms
proof (induction Ss)
  case Nil
  then show ?case by simp
next
  case (Cons S Ss)
  from Cons.prems obtain a where c: "call_Ves_isInside E pts In S = Inr a"
    and w: "wf_nd a" and s: "shape a = (if st_nLim S \<le> 1 then [N] else [st_nLim S, N])"
    and rest: "engine_contract E pts In N Ss"
    by (auto simp: engine_contract_def split: sum.splits)
  from isInside_row_contract[OF c w s, of log0] obtain row where
    row: "isInside_row E pts In log0 N S = Inr row" "length row = N"
    and rowv: "\<forall>j<N. row ! j =
                (if st_nLim S > 1
                 then (if log0 = ''any'' then (\<exists>k<st_nLim S. data a ! (k * N + j))
                       else (\<forall>k<st_nLim S. data a ! (k * N + j)))
                 else data a ! j)" by blast
  from Cons.IH[OF rest] obtain rows where
    rows: "isInside_rows E pts In log0 N Ss = Inr rows" "length rows = length Ss"
      "\<forall>r\<in>set rows. length r = N"
    and rowsv: "\<forall>ii<length Ss. \<forall>a. call_Ves_isInside E pts In (Ss ! ii) = Inr a \<longrightarrow>
                (\<forall>j<N. rows ! ii ! j =
                  (if st_nLim (Ss ! ii) > 1
                   then (if log0 = ''any'' then (\<exists>k<st_nLim (Ss ! ii). data a ! (k * N + j))
                         else (\<forall>k<st_nLim (Ss ! ii). data a ! (k * N + j)))
                   else data a ! j))" by blast
  have "isInside_rows E pts In log0 N (S # Ss) = Inr (row # rows)"
    using row(1) rows(1) by simp
  moreover have "length (row # rows) = length (S # Ss)" using rows(2) by simp
  moreover have "\<forall>r\<in>set (row # rows). length r = N" using row(2) rows(3) by simp
  moreover have "\<forall>ii<length (S # Ss). \<forall>a. call_Ves_isInside E pts In ((S # Ss) ! ii) = Inr a \<longrightarrow>
                (\<forall>j<N. (row # rows) ! ii ! j =
                  (if st_nLim ((S # Ss) ! ii) > 1
                   then (if log0 = ''any'' then (\<exists>k<st_nLim ((S # Ss) ! ii). data a ! (k * N + j))
                         else (\<forall>k<st_nLim ((S # Ss) ! ii). data a ! (k * N + j)))
                   else data a ! j))"
  proof (intro allI impI)
    fix ii a' j
    assume ii: "ii < length (S # Ss)"
      and ca: "call_Ves_isInside E pts In ((S # Ss) ! ii) = Inr a'" and j: "j < N"
    show "(row # rows) ! ii ! j =
                  (if st_nLim ((S # Ss) ! ii) > 1
                   then (if log0 = ''any'' then (\<exists>k<st_nLim ((S # Ss) ! ii). data a' ! (k * N + j))
                         else (\<forall>k<st_nLim ((S # Ss) ! ii). data a' ! (k * N + j)))
                   else data a' ! j)"
    proof (cases ii)
      case 0
      with ca c have "a' = a" by simp
      with 0 rowv j show ?thesis by simp
    next
      case (Suc i)
      with ii ca rowsv j show ?thesis by simp
    qed
  qed
  ultimately show ?case by blast
qed

text \<open>
  Claim C9. Let \<^verbatim>\<open>log\<close> be \<^verbatim>\<open>'any'\<close> or \<^verbatim>\<open>'all'\<close>, and \<^verbatim>\<open>pts\<close> a batch of
  \<open>N\<close> points (shape \<^verbatim>\<open>(2,N)\<close> or \<^verbatim>\<open>(3,N)\<close>, or one point given as a 1D array),
  and let the containment engine keep to the shapes the specification gives. Then
  \<^verbatim>\<open>Config.isInside\<close> returns a boolean array of shape \<^verbatim>\<open>(nStruct, N)\<close> whose row
  for a structure with \<^verbatim>\<open>nLim>1\<close> is, point by point, the disjunction over the
  occurrences of the engine's rows when \<^verbatim>\<open>log='any'\<close> and their conjunction when
  \<^verbatim>\<open>log='all'\<close>, and whose row for any other structure is the engine's result.
\<close>

theorem isInside_collapses_occurrences:
  assumes "log0 = ''any'' \<or> log0 = ''all''"
    and "d = 2 \<or> d = 3"
    and "(shape pts = [d, N] \<and> pts' = pts) \<or> (shape pts = [d] \<and> N = 1 \<and> pts' = reshape [d, 1] pts)"
    and "engine_contract E pts' In N lStruct"
  shows "\<exists>ind. Config_isInside E lStruct pts In log0 = Inr ind
           \<and> shape ind = [length lStruct, N] \<and> wf_nd ind
           \<and> (\<forall>ii<length lStruct. \<forall>a. call_Ves_isInside E pts' In (lStruct ! ii) = Inr a \<longrightarrow>
                (\<forall>j<N. data ind ! (ii * N + j) =
                  (if st_nLim (lStruct ! ii) > 1
                   then (if log0 = ''any''
                         then (\<exists>k<st_nLim (lStruct ! ii). data a ! (k * N + j))
                         else (\<forall>k<st_nLim (lStruct ! ii). data a ! (k * N + j)))
                   else data a ! j)))"
proof -
  from isInside_rows_contract[OF assms(4), of log0] obtain rows where
    rows: "isInside_rows E pts' In log0 N lStruct = Inr rows" "length rows = length lStruct"
      "\<forall>r\<in>set rows. length r = N"
    and rowsv: "\<forall>ii<length lStruct. \<forall>a. call_Ves_isInside E pts' In (lStruct ! ii) = Inr a \<longrightarrow>
                (\<forall>j<N. rows ! ii ! j =
                  (if st_nLim (lStruct ! ii) > 1
                   then (if log0 = ''any'' then (\<exists>k<st_nLim (lStruct ! ii). data a ! (k * N + j))
                         else (\<forall>k<st_nLim (lStruct ! ii). data a ! (k * N + j)))
                   else data a ! j))" by blast
  let ?ind = "\<lparr>shape = [length lStruct, N], data = concat rows\<rparr>"
  have r: "Config_isInside E lStruct pts In log0 = Inr ?ind"
  proof (cases "shape pts = [d, N] \<and> pts' = pts")
    case True
    with assms(1,2) rows(1) show ?thesis
      by (auto simp: Config_isInside_def ndim_def)
  next
    case False
    with assms(3) have "shape pts = [d]" "N = 1" "pts' = reshape [d, 1] pts" by auto
    with assms(1,2) rows(1) show ?thesis
      by (auto simp: Config_isInside_def ndim_def size_nd_def reshape_def)
  qed
  have w: "wf_nd ?ind"
    using length_concat_uniform[OF rows(3)] rows(2) by (simp add: wf_nd_def size_nd_def)
  have v: "\<forall>ii<length lStruct. \<forall>j<N. data ?ind ! (ii * N + j) = rows ! ii ! j"
    using concat_nth_uniform[OF rows(3)] rows(2) by simp
  from r w v rowsv show ?thesis by (intro exI[of _ ?ind]) simp
qed

lemma engine0_contract: "engine_contract engine0 pts_two ''(R,Z)'' 2 [S_full, S_sectors]"
  by (simp add: engine_contract_def call_Ves_isInside_def engine0_def S_full_def S_sectors_def
      wf_nd_def size_nd_def)

lemma isInside_example:
  "Config_isInside engine0 [S_full, S_sectors] pts_two ''(R,Z)'' ''any''
     = Inr \<lparr>shape = [2, 2], data = [True, False, True, False]\<rparr>
   \<and> Config_isInside engine0 [S_full, S_sectors] pts_two ''(R,Z)'' ''all''
     = Inr \<lparr>shape = [2, 2], data = [True, False, False, False]\<rparr>"
  by (simp add: Config_isInside_def isInside_row_def call_Ves_isInside_def engine0_def
      S_full_def S_sectors_def pts_two_def ndim_def any_axis0_def all_axis0_def
      assign_row_def upt_rec)

theorem isInside_collapses_occurrences_witness:
  "\<exists>ind. Config_isInside engine0 [S_full, S_sectors] pts_two ''(R,Z)'' ''any'' = Inr ind
      \<and> shape ind = [2, 2] \<and> wf_nd ind \<and> data ind ! 2 = True \<and> data ind ! 1 = False"
proof -
  have l: "''any'' = ''any'' \<or> ''any'' = ''all''" by simp
  have d: "(2::nat) = 2 \<or> (2::nat) = 3" by simp
  have s: "(shape pts_two = [2, 2] \<and> pts_two = pts_two)
           \<or> (shape pts_two = [2] \<and> (2::nat) = 1 \<and> pts_two = reshape [2, 1] pts_two)"
    by (simp add: pts_two_def)
  have c0: "call_Ves_isInside engine0 pts_two ''(R,Z)'' ([S_full, S_sectors] ! 0)
              = Inr \<lparr>shape = [2], data = [True, False]\<rparr>"
    by (simp add: call_Ves_isInside_def engine0_def S_full_def)
  have c1: "call_Ves_isInside engine0 pts_two ''(R,Z)'' ([S_full, S_sectors] ! 1)
              = Inr \<lparr>shape = [2, 2], data = [True, False, False, False]\<rparr>"
    by (simp add: call_Ves_isInside_def engine0_def S_sectors_def)
  from isInside_collapses_occurrences[OF l d s engine0_contract]
  obtain ind where i: "Config_isInside engine0 [S_full, S_sectors] pts_two ''(R,Z)'' ''any'' = Inr ind"
    "shape ind = [2, 2]" "wf_nd ind"
    and v: "\<forall>ii<length [S_full, S_sectors]. \<forall>a.
              call_Ves_isInside engine0 pts_two ''(R,Z)'' ([S_full, S_sectors] ! ii) = Inr a \<longrightarrow>
                (\<forall>j<2. data ind ! (ii * 2 + j) =
                  (if st_nLim ([S_full, S_sectors] ! ii) > 1
                   then (if ''any'' = ''any''
                         then (\<exists>k<st_nLim ([S_full, S_sectors] ! ii). data a ! (k * 2 + j))
                         else (\<forall>k<st_nLim ([S_full, S_sectors] ! ii). data a ! (k * 2 + j)))
                   else data a ! j))"
    by auto
  from v[rule_format, of 1 _ 0, OF _ c1] have "data ind ! 2 = (\<exists>k<2. [True, False, False, False] ! (k * 2))"
    by (simp add: S_sectors_def)
  moreover have "\<exists>k<2::nat. [True, False, False, False] ! (k * 2)"
    by (rule exI[of _ 0]) simp
  ultimately have t: "data ind ! 2 = True" by simp
  from v[rule_format, of 0 _ 1, OF _ c0] have f: "data ind ! 1 = False"
    by (simp add: S_full_def)
  from i t f show ?thesis by blast
qed

end
